theory Spec2Isabelle
  imports Complex_Main
begin

section \<open>The approval-gated query pipeline of MongoDBSQLAgent\<close>

text \<open>
  A shallow embedding of \<^verbatim>\<open>backend/app/mongodbAgent.py\<close> (class \<^verbatim>\<open>MongoDBSQLAgent\<close>:
  \<^verbatim>\<open>store_query_pair\<close>, \<^verbatim>\<open>find_similar_queries\<close>, \<^verbatim>\<open>_vector_search\<close>, \<^verbatim>\<open>_text_search\<close>,
  \<^verbatim>\<open>generate_sql\<close>, \<^verbatim>\<open>execute_query\<close>, \<^verbatim>\<open>query\<close>) and of the endpoint
  \<^verbatim>\<open>store_question_sql_pair\<close> of \<^verbatim>\<open>backend/app/api.py\<close>.

  The collaborators the agent calls (the sentence transformer, Vanna, BigQuery, the MongoDB
  server, the clock, hashlib) are parameters, collected in the record \<open>env\<close>. Every call
  that leaves the process threads an abstract world \<open>'w\<close>, so a collaborator may answer
  differently at each call and may raise at each call. A Python exception is a value
  \<open>Inl (Exception msg)\<close>; every handler of the source is \<open>except Exception\<close>, so the class of
  an exception is not modelled, only what \<^verbatim>\<open>str(e)\<close> gives.

  A Python \<^verbatim>\<open>str\<close> is the list of its code points (\<open>pystr\<close>), so \<open>length\<close> is Python's
  \<^verbatim>\<open>len\<close>; \<open>py\<close> turns a literal into such a list. The keys of a response dictionary,
  which are fixed, stay literals.
\<close>

subsection \<open>Data\<close>

type_synonym pystr = "int list"

definition py :: "string \<Rightarrow> pystr" where
  "py s = map of_char s"

datatype exn = Exception pystr

fun str :: "exn \<Rightarrow> pystr" where
  "str (Exception msg) = msg"

text \<open>The document that \<^verbatim>\<open>store_query_pair\<close> builds; \<open>doc_result_preview = None\<close> is a
  document without the key \<^verbatim>\<open>result_preview\<close>.\<close>

record document =
  doc_id :: pystr
  doc_question :: pystr
  doc_sql :: pystr
  doc_embedding :: "real list"
  doc_execution_time :: real
  doc_was_successful :: bool
  doc_timestamp :: real
  doc_result_preview :: "pystr option"

text \<open>An entry of \<^verbatim>\<open>similar_queries\<close>: the projection both searches ask for; the vector search
  adds a \<^verbatim>\<open>score\<close>.\<close>

record similar =
  sq_question :: pystr
  sq_sql :: pystr
  sq_was_successful :: bool
  sq_execution_time :: real
  sq_score :: "real option"

datatype row_iterator = RowIterator nat

record dataframe =
  df_columns :: "string list"
  df_rows :: "string list list"

definition df_empty :: "dataframe \<Rightarrow> bool" where
  "df_empty df = (df_columns df = [] \<or> df_rows df = [])"

definition df_head :: "nat \<Rightarrow> dataframe \<Rightarrow> dataframe" where
  "df_head n df = df\<lparr>df_rows := take n (df_rows df)\<rparr>"

text \<open>The values of a response dictionary. A response is the list of its items in insertion
  order; \<open>map_of r k = None\<close> says the key \<open>k\<close> is absent, \<open>Some PNone\<close> that it holds \<^verbatim>\<open>None\<close>.\<close>

datatype pyval =
    PNone
  | PBool bool
  | PNum real
  | PStr pystr
  | PSimilar "similar list"
  | PFrame dataframe

type_synonym response = "(string \<times> pyval) list"

text \<open>Calls of the collaborators that the properties below speak about, recorded in order: the generator
  (\<^verbatim>\<open>self.vn.generate_sql\<close>, with its \<^verbatim>\<open>examples\<close> argument, \<open>None\<close> when the keyword is not
  passed), \<^verbatim>\<open>execute_query\<close>, and \<^verbatim>\<open>store_query_pair\<close> with its arguments.\<close>

datatype event =
    GenerateCall pystr "(pystr \<times> pystr) list option"
  | ExecuteCall pystr
  | StoreCall pystr pystr real bool "pystr option"

fun is_generate :: "event \<Rightarrow> bool" where
  "is_generate (GenerateCall _ _) = True"
| "is_generate _ = False"

fun is_execute :: "event \<Rightarrow> bool" where
  "is_execute (ExecuteCall _) = True"
| "is_execute _ = False"

fun is_store :: "event \<Rightarrow> bool" where
  "is_store (StoreCall _ _ _ _ _) = True"
| "is_store _ = False"

text \<open>The state of a run: the world outside the process, the collection
  \<^verbatim>\<open>self.collection\<close>, and the calls recorded so far. The trace is bookkeeping of the model:
  no operation reads it.\<close>

record 'w agent_state =
  world :: 'w
  collection :: "document list"
  trace :: "event list"

text \<open>
  The collaborators, one field for each call that leaves the agent's own code:
  \<^item> \<open>model_encode\<close>: \<^verbatim>\<open>self.model.encode(question).tolist()\<close>;
  \<^item> \<open>str_lower\<close>: \<^verbatim>\<open>question.lower()\<close>, the case mapping of Python's \<^verbatim>\<open>str\<close>; its result may
    be longer than its argument;
  \<^item> \<open>md5_hexdigest\<close>: \<^verbatim>\<open>hashlib.md5(question.encode()).hexdigest()\<close>, a function of the text;
  \<^item> \<open>datetime_now\<close>: \<^verbatim>\<open>datetime.now()\<close>, and \<open>time_time\<close>: \<^verbatim>\<open>time.time()\<close>;
  \<^item> \<open>mongo_fault\<close>: whether the server fails the next \<^verbatim>\<open>replace_one\<close> or \<^verbatim>\<open>find\<close>, and with
    which exception;
  \<^item> \<open>vector_aggregate\<close>: \<^verbatim>\<open>list(self.collection.aggregate(pipeline))\<close> with the
    \<^verbatim>\<open>$vectorSearch\<close> pipeline, on the current collection;
  \<^item> \<open>regex_compile\<close>: the server's regular expressions, pattern and options;
  \<^item> \<open>vn_generate_sql\<close>: \<^verbatim>\<open>self.vn.generate_sql(question=..., examples=..., allow_llm_to_see_data=True)\<close>,
    with \<open>None\<close> for a call without \<^verbatim>\<open>examples\<close>;
  \<^item> \<open>bq_query_result\<close>: \<^verbatim>\<open>self.bq_client.query(sql).result()\<close>;
  \<^item> \<open>to_dataframe\<close>: \<^verbatim>\<open>results.to_dataframe()\<close>, and \<open>to_string\<close>: \<^verbatim>\<open>df.to_string()\<close>.
\<close>

record 'w env =
  model_encode :: "pystr \<Rightarrow> 'w \<Rightarrow> (exn + real list) \<times> 'w"
  str_lower :: "pystr \<Rightarrow> pystr"
  md5_hexdigest :: "pystr \<Rightarrow> pystr"
  datetime_now :: "'w \<Rightarrow> real \<times> 'w"
  mongo_fault :: "'w \<Rightarrow> exn option \<times> 'w"
  vector_aggregate :: "document list \<Rightarrow> real list \<Rightarrow> int \<Rightarrow> 'w \<Rightarrow> (exn + similar list) \<times> 'w"
  regex_compile :: "pystr \<Rightarrow> pystr \<Rightarrow> exn + (pystr \<Rightarrow> bool)"
  vn_generate_sql :: "pystr \<Rightarrow> (pystr \<times> pystr) list option \<Rightarrow> 'w \<Rightarrow> (exn + pystr) \<times> 'w"
  time_time :: "'w \<Rightarrow> real \<times> 'w"
  bq_query_result :: "pystr \<Rightarrow> 'w \<Rightarrow> (exn + row_iterator) \<times> 'w"
  to_dataframe :: "row_iterator \<Rightarrow> 'w \<Rightarrow> (exn + dataframe) \<times> 'w"
  to_string :: "dataframe \<Rightarrow> pystr"

subsection \<open>Control: return, raise, sequencing, try/except\<close>

type_synonym ('w, 'a) prog = "'w agent_state \<Rightarrow> (exn + 'a) \<times> 'w agent_state"

definition ret :: "'a \<Rightarrow> ('w, 'a) prog" where
  "ret x = (\<lambda>s. (Inr x, s))"

definition seq :: "('w, 'a) prog \<Rightarrow> ('a \<Rightarrow> ('w, 'b) prog) \<Rightarrow> ('w, 'b) prog" where
  "seq m f = (\<lambda>s. case m s of (Inl e, s') \<Rightarrow> (Inl e, s') | (Inr x, s') \<Rightarrow> f x s')"

definition try_except :: "('w, 'a) prog \<Rightarrow> (exn \<Rightarrow> ('w, 'a) prog) \<Rightarrow> ('w, 'a) prog" where
  "try_except m h = (\<lambda>s. case m s of (Inl e, s') \<Rightarrow> h e s' | (Inr x, s') \<Rightarrow> (Inr x, s'))"

definition external :: "('w \<Rightarrow> (exn + 'a) \<times> 'w) \<Rightarrow> ('w, 'a) prog" where
  "external f = (\<lambda>s. case f (world s) of (r, w') \<Rightarrow> (r, s\<lparr>world := w'\<rparr>))"

definition external_total :: "('w \<Rightarrow> 'a \<times> 'w) \<Rightarrow> ('w, 'a) prog" where
  "external_total f = (\<lambda>s. case f (world s) of (x, w') \<Rightarrow> (Inr x, s\<lparr>world := w'\<rparr>))"

definition record_event :: "event \<Rightarrow> ('w, unit) prog" where
  "record_event ev = (\<lambda>s. (Inr (), s\<lparr>trace := trace s @ [ev]\<rparr>))"

definition new_events :: "'w agent_state \<Rightarrow> 'w agent_state \<Rightarrow> event list" where
  "new_events s s' = drop (length (trace s)) (trace s')"

subsection \<open>Python string operations\<close>

text \<open>The code points for which \<^verbatim>\<open>str.isspace\<close> holds; \<^verbatim>\<open>str.split()\<close> separates at these.\<close>

definition is_space :: "int \<Rightarrow> bool" where
  "is_space n =
     ((9 \<le> n \<and> n \<le> 13) \<or> (28 \<le> n \<and> n \<le> 32) \<or> n = 133 \<or> n = 160 \<or> n = 5760
      \<or> (8192 \<le> n \<and> n \<le> 8202) \<or> n = 8232 \<or> n = 8233 \<or> n = 8239 \<or> n = 8287
      \<or> n = 12288)"

text \<open>\<^verbatim>\<open>s.split()\<close>: the maximal runs of characters that are not whitespace.\<close>

fun split_from :: "pystr \<Rightarrow> pystr \<Rightarrow> pystr list" where
  "split_from w [] = (if w = [] then [] else [w])"
| "split_from w (c # cs) =
     (if is_space c then (if w = [] then split_from [] cs else w # split_from [] cs)
      else split_from (w @ [c]) cs)"

definition py_split :: "pystr \<Rightarrow> pystr list" where
  "py_split s = split_from [] s"

text \<open>\<^verbatim>\<open>sep.join(xs)\<close>.\<close>

fun join :: "pystr \<Rightarrow> pystr list \<Rightarrow> pystr" where
  "join sep [] = []"
| "join sep [x] = x"
| "join sep (x # y # ys) = x @ sep @ join sep (y # ys)"

fun starts_with :: "pystr \<Rightarrow> pystr \<Rightarrow> bool" where
  "starts_with [] _ = True"
| "starts_with (p # ps) [] = False"
| "starts_with (p # ps) (c # cs) = (p = c \<and> starts_with ps cs)"

text \<open>\<^verbatim>\<open>needle in hay\<close> on strings.\<close>

fun py_in :: "pystr \<Rightarrow> pystr \<Rightarrow> bool" where
  "py_in p [] = (p = [])"
| "py_in p (c # cs) = (starts_with p (c # cs) \<or> py_in p cs)"

subsection \<open>The MongoDB collection\<close>

text \<open>
  The collection is the list of its documents in the order the server returns them.
  \<^verbatim>\<open>replace_one({"_id": id}, document, upsert=True)\<close> replaces the first document with that
  \<^verbatim>\<open>_id\<close>, or inserts the document when there is none.
  A cursor's \<^verbatim>\<open>limit(n)\<close> is the driver's: \<open>0\<close> is no limit, a negative \<open>n\<close> limits to \<open>- n\<close>.
\<close>

fun upsert_doc :: "pystr \<Rightarrow> document \<Rightarrow> document list \<Rightarrow> document list" where
  "upsert_doc i d [] = [d]"
| "upsert_doc i d (x # xs) = (if doc_id x = i then d # xs else x # upsert_doc i d xs)"

definition replace_one_upsert :: "'w env \<Rightarrow> pystr \<Rightarrow> document \<Rightarrow> ('w, unit) prog" where
  "replace_one_upsert env i d =
     seq (external_total (mongo_fault env)) (\<lambda>fault.
       case fault of
         Some e \<Rightarrow> (\<lambda>s. (Inl e, s))
       | None \<Rightarrow> (\<lambda>s. (Inr (), s\<lparr>collection := upsert_doc i d (collection s)\<rparr>)))"

definition cursor_limit :: "int \<Rightarrow> 'a list \<Rightarrow> 'a list" where
  "cursor_limit n xs = (if n = 0 then xs else take (nat \<bar>n\<bar>) xs)"

definition project :: "document \<Rightarrow> similar" where
  "project d = \<lparr>sq_question = doc_question d, sq_sql = doc_sql d,
     sq_was_successful = doc_was_successful d, sq_execution_time = doc_execution_time d,
     sq_score = None\<rparr>"

text \<open>\<^verbatim>\<open>list(collection.find({"question": {"$regex": p, "$options": o}}, projection).limit(k))\<close>.
  The regular-expression engine of the server is the parameter \<open>regex_compile\<close>: it rejects
  a pattern or gives the predicate "the pattern matches somewhere in the subject".\<close>

definition find_regex :: "'w env \<Rightarrow> pystr \<Rightarrow> pystr \<Rightarrow> int \<Rightarrow> ('w, similar list) prog" where
  "find_regex env p opts k =
     seq (external_total (mongo_fault env)) (\<lambda>fault.
       case fault of
         Some e \<Rightarrow> (\<lambda>s. (Inl e, s))
       | None \<Rightarrow>
           (case regex_compile env p opts of
              Inl e \<Rightarrow> (\<lambda>s. (Inl e, s))
            | Inr matches \<Rightarrow>
                (\<lambda>s. (Inr (map project
                   (cursor_limit k (filter (\<lambda>d. matches (doc_question d)) (collection s)))), s))))"

subsection \<open>MongoDBSQLAgent\<close>

definition truthy :: "pystr option \<Rightarrow> bool" where
  "truthy r = (case r of None \<Rightarrow> False | Some t \<Rightarrow> t \<noteq> [])"

definition make_document ::
  "'w env \<Rightarrow> pystr \<Rightarrow> pystr \<Rightarrow> real list \<Rightarrow> real \<Rightarrow> bool \<Rightarrow> real \<Rightarrow> pystr option \<Rightarrow> document" where
  "make_document env question sql embedding execution_time was_successful now result_preview =
     \<lparr>doc_id = md5_hexdigest env question,
      doc_question = question,
      doc_sql = sql,
      doc_embedding = embedding,
      doc_execution_time = execution_time,
      doc_was_successful = was_successful,
      doc_timestamp = now,
      doc_result_preview = (if truthy result_preview then result_preview else None)\<rparr>"

definition store_query_pair ::
  "'w env \<Rightarrow> pystr \<Rightarrow> pystr \<Rightarrow> real \<Rightarrow> bool \<Rightarrow> pystr option \<Rightarrow> ('w, unit) prog" where
  "store_query_pair env question sql execution_time was_successful result_preview =
     seq (record_event (StoreCall question sql execution_time was_successful result_preview)) (\<lambda>_.
     seq (external (model_encode env question)) (\<lambda>embedding.
     seq (external_total (datetime_now env)) (\<lambda>now.
       replace_one_upsert env (md5_hexdigest env question)
         (make_document env question sql embedding execution_time was_successful now
            result_preview))))"

text \<open>\<^verbatim>\<open>_vector_search\<close>: the aggregation raises when Atlas vector search is not there; the
  method catches that and returns the empty list.\<close>

definition vector_search :: "'w env \<Rightarrow> real list \<Rightarrow> int \<Rightarrow> ('w, similar list) prog" where
  "vector_search env embedding top_k =
     try_except
       (\<lambda>s. external (vector_aggregate env (collection s) embedding top_k) s)
       (\<lambda>e. ret [])"

text \<open>\<^verbatim>\<open>_text_search\<close>.\<close>

definition keywords_of :: "'w env \<Rightarrow> pystr \<Rightarrow> pystr list" where
  "keywords_of env question =
     filter (\<lambda>word. length word > 3) (py_split (str_lower env question))"

definition text_search :: "'w env \<Rightarrow> pystr \<Rightarrow> int \<Rightarrow> ('w, similar list) prog" where
  "text_search env question top_k =
     find_regex env (join (py ''|'') (keywords_of env question)) (py ''i'') top_k"

definition find_similar_queries :: "'w env \<Rightarrow> pystr \<Rightarrow> int \<Rightarrow> ('w, similar list) prog" where
  "find_similar_queries env question top_k =
     seq (external (model_encode env question)) (\<lambda>embedding.
     seq (try_except
            (seq (vector_search env embedding top_k) (\<lambda>similar_queries.
               ret (if similar_queries \<noteq> [] then Some similar_queries else None)))
            (\<lambda>e. ret None)) (\<lambda>found.
       case found of
         Some similar_queries \<Rightarrow> ret similar_queries
       | None \<Rightarrow> text_search env question top_k))"

definition vn_generate :: "'w env \<Rightarrow> pystr \<Rightarrow> (pystr \<times> pystr) list option \<Rightarrow> ('w, pystr) prog" where
  "vn_generate env question examples =
     seq (record_event (GenerateCall question examples)) (\<lambda>_.
       external (vn_generate_sql env question examples))"

definition example_pairs_of :: "similar list \<Rightarrow> (pystr \<times> pystr) list" where
  "example_pairs_of similar_queries =
     map (\<lambda>q. (sq_question q, sq_sql q)) (filter sq_was_successful similar_queries)"

definition generate_sql :: "'w env \<Rightarrow> pystr \<Rightarrow> ('w, pystr \<times> similar list) prog" where
  "generate_sql env question =
     seq (find_similar_queries env question 3) (\<lambda>similar_queries.
       let example_pairs = example_pairs_of similar_queries in
       seq (if example_pairs \<noteq> []
            then vn_generate env question (Some example_pairs)
            else vn_generate env question None) (\<lambda>sql.
         ret (sql, similar_queries)))"

definition execute_query :: "'w env \<Rightarrow> pystr \<Rightarrow> ('w, row_iterator \<times> real) prog" where
  "execute_query env sql =
     seq (record_event (ExecuteCall sql)) (\<lambda>_.
     seq (external_total (time_time env)) (\<lambda>start_time.
     seq (external (bq_query_result env sql)) (\<lambda>results.
     seq (external_total (time_time env)) (\<lambda>end_time.
       ret (results, end_time - start_time)))))"

definition preview_of :: "'w env \<Rightarrow> dataframe \<Rightarrow> pystr" where
  "preview_of env df = (if \<not> df_empty df then to_string env (df_head 5 df) else (py ''No results''))"

text \<open>The outcome of the try block of \<^verbatim>\<open>query\<close>: the variables \<^verbatim>\<open>was_successful\<close>,
  \<^verbatim>\<open>error_message\<close>, \<^verbatim>\<open>execution_time\<close>, \<^verbatim>\<open>df\<close> and \<^verbatim>\<open>result_preview\<close> after it.\<close>

record outcome =
  o_was_successful :: bool
  o_error_message :: "pystr option"
  o_execution_time :: real
  o_df :: "dataframe option"
  o_result_preview :: "pystr option"

definition attempt :: "'w env \<Rightarrow> pystr \<Rightarrow> ('w, outcome) prog" where
  "attempt env sql =
     try_except
       (seq (execute_query env sql) (\<lambda>(results, execution_time).
        seq (external (to_dataframe env results)) (\<lambda>df.
          ret \<lparr>o_was_successful = True, o_error_message = None,
               o_execution_time = execution_time, o_df = Some df,
               o_result_preview = Some (preview_of env df)\<rparr>)))
       (\<lambda>e. ret \<lparr>o_was_successful = False, o_error_message = Some (str e),
                 o_execution_time = 0, o_df = None, o_result_preview = None\<rparr>)"

definition awaiting_response :: "pystr \<Rightarrow> pystr \<Rightarrow> similar list \<Rightarrow> response" where
  "awaiting_response question sql similar_queries =
     [(''question'', PStr question),
      (''sql'', PStr sql),
      (''requires_approval'', PBool True),
      (''was_successful'', PNone),
      (''execution_time'', PNum 0),
      (''similar_queries'', PSimilar similar_queries),
      (''awaiting_approval'', PBool True)]"

definition final_response ::
  "pystr \<Rightarrow> pystr \<Rightarrow> similar list \<Rightarrow> bool \<Rightarrow> bool \<Rightarrow> outcome \<Rightarrow> response" where
  "final_response question sql similar_queries require_approval approved out =
     [(''question'', PStr question),
      (''sql'', PStr sql),
      (''was_successful'', PBool (o_was_successful out)),
      (''execution_time'', PNum (o_execution_time out)),
      (''similar_queries'', PSimilar similar_queries),
      (''requires_approval'', PBool require_approval),
      (''approved'', PBool approved)]
     @ (if o_was_successful out
        then [(''results'', (case o_df out of Some df \<Rightarrow> PFrame df | None \<Rightarrow> PNone)),
              (''result_preview'',
                 (case o_result_preview out of Some p \<Rightarrow> PStr p | None \<Rightarrow> PNone))]
        else [(''error_message'',
                 (case o_error_message out of Some m \<Rightarrow> PStr m | None \<Rightarrow> PNone))])"

definition query :: "'w env \<Rightarrow> pystr \<Rightarrow> bool \<Rightarrow> bool \<Rightarrow> bool \<Rightarrow> ('w, response) prog" where
  "query env question store_results require_approval approved =
     seq (generate_sql env question) (\<lambda>(sql, similar_queries).
       if require_approval \<and> \<not> approved
       then ret (awaiting_response question sql similar_queries)
       else
         seq (attempt env sql) (\<lambda>out.
         seq (if store_results
              then store_query_pair env question sql (o_execution_time out)
                     (o_was_successful out) (o_result_preview out)
              else ret ()) (\<lambda>_.
           ret (final_response question sql similar_queries require_approval approved out))))"

subsection \<open>The endpoint store\_question\_sql\_pair of api.py\<close>

definition store_error_suffix :: "exn \<Rightarrow> pystr" where
  "store_error_suffix store_error =
     (py '' (Additionally, failed to store query: '') @ str store_error @ (py '')'')"

definition store_question_sql_pair :: "'w env \<Rightarrow> pystr \<Rightarrow> pystr \<Rightarrow> bool \<Rightarrow> ('w, response) prog" where
  "store_question_sql_pair env question sql store_results =
     try_except
       (seq (execute_query env sql) (\<lambda>(results, execution_time).
        seq (external (to_dataframe env results)) (\<lambda>df.
        seq (if store_results
             then store_query_pair env question sql execution_time True (Some (preview_of env df))
             else ret ()) (\<lambda>_.
          ret [(''question'', PStr question),
               (''sql'', PStr sql),
               (''was_successful'', PBool True),
               (''execution_time'', PNum execution_time),
               (''results'', PFrame df),
               (''result_preview'', PStr (preview_of env df)),
               (''stored'', PBool store_results)]))))
       (\<lambda>e.
        seq (if store_results
             then try_except
                    (seq (store_query_pair env question sql 0 False None) (\<lambda>_. ret (str e)))
                    (\<lambda>store_error. ret (str e @ store_error_suffix store_error))
             else ret (str e)) (\<lambda>error_message.
          ret [(''question'', PStr question),
               (''sql'', PStr sql),
               (''was_successful'', PBool False),
               (''error_message'', PStr error_message),
               (''stored'', PBool (store_results \<and> \<not> py_in (py ''failed to store'') error_message))]))"

subsection \<open>A test double for the collaborators\<close>

text \<open>
  Concrete collaborators on which the theorems below are evaluated. The world is a counter
  of the calls made so far. \<open>literal_regex_compile\<close> agrees with a regular-expression engine
  on patterns without metacharacters (alternatives separated by \<open>|\<close>, each searched as a
  substring); it rejects every other pattern.
\<close>

fun split_on :: "int \<Rightarrow> pystr \<Rightarrow> pystr \<Rightarrow> pystr list" where
  "split_on sep w [] = [w]"
| "split_on sep w (c # cs) =
     (if c = sep then w # split_on sep [] cs else split_on sep (w @ [c]) cs)"

definition regex_meta :: "int \<Rightarrow> bool" where
  "regex_meta c = (c \<in> set (py (CHR 0x5C # ''.^$*+?()[]{}'')))"

text \<open>A case mapping that agrees with \<^verbatim>\<open>str.lower()\<close> on U+0000 to U+00FF and on U+0130, whose
  lower case is the two code points U+0069 U+0307.\<close>

definition lower_cp :: "int \<Rightarrow> pystr" where
  "lower_cp n =
     (if (65 \<le> n \<and> n \<le> 90) \<or> (192 \<le> n \<and> n \<le> 222 \<and> n \<noteq> 215) then [n + 32]
      else if n = 304 then [105, 775]
      else [n])"

definition demo_lower :: "pystr \<Rightarrow> pystr" where
  "demo_lower s = concat (map lower_cp s)"

definition matches_literal :: "pystr \<Rightarrow> pystr \<Rightarrow> pystr \<Rightarrow> bool" where
  "matches_literal p opts subject =
     list_ex (\<lambda>alt. if of_char CHR ''i'' \<in> set opts then py_in (demo_lower alt) (demo_lower subject)
                     else py_in alt subject) (split_on (of_char CHR ''|'') [] p)"

definition literal_regex_compile :: "pystr \<Rightarrow> pystr \<Rightarrow> exn + (pystr \<Rightarrow> bool)" where
  "literal_regex_compile p opts =
     (if list_ex regex_meta p then Inl (Exception (py ''unsupported pattern''))
      else Inr (matches_literal p opts))"

definition demo_df :: dataframe where
  "demo_df = \<lparr>df_columns = [''n''], df_rows = [[''1'']]\<rparr>"

definition encoder_ok :: "nat \<Rightarrow> exn + real list" where
  "encoder_ok w = Inr [1]"

definition encoder_down :: "nat \<Rightarrow> exn + real list" where
  "encoder_down w = Inl (Exception (py ''model not loaded''))"

definition no_faults :: "nat \<Rightarrow> exn option" where
  "no_faults w = None"

definition store_down_at :: "nat \<Rightarrow> nat \<Rightarrow> exn option" where
  "store_down_at n w = (if w = n then Some (Exception (py ''store down'')) else None)"

definition fixed_sql :: "nat \<Rightarrow> exn + pystr" where
  "fixed_sql w = Inr (py ''SELECT 1'')"

definition varying_sql :: "nat \<Rightarrow> exn + pystr" where
  "varying_sql w = Inr (if w < 4 then (py ''SELECT 1'') else (py ''SELECT 2''))"

definition generator_down :: "nat \<Rightarrow> exn + pystr" where
  "generator_down w = Inl (Exception (py ''generator unreachable''))"

definition demo_env ::
  "(nat \<Rightarrow> exn + real list) \<Rightarrow> (nat \<Rightarrow> exn option) \<Rightarrow> (nat \<Rightarrow> exn + pystr) \<Rightarrow> bool \<Rightarrow> nat env" where
  "demo_env enc faults gen bq_fails =
     \<lparr>model_encode = (\<lambda>q w. (enc w, Suc w)),
      str_lower = demo_lower,
      md5_hexdigest = (\<lambda>q. q),
      datetime_now = (\<lambda>w. (real w, Suc w)),
      mongo_fault = (\<lambda>w. (faults w, Suc w)),
      vector_aggregate = (\<lambda>docs emb k w. (Inl (Exception (py ''no vector index'')), Suc w)),
      regex_compile = literal_regex_compile,
      vn_generate_sql = (\<lambda>q ex w. (gen w, Suc w)),
      time_time = (\<lambda>w. (real w, Suc w)),
      bq_query_result = (\<lambda>sql w.
         (if bq_fails then Inl (Exception (py ''bad sql'')) else Inr (RowIterator 0), Suc w)),
      to_dataframe = (\<lambda>r w. (Inr demo_df, Suc w)),
      to_string = (\<lambda>df. (py ''n 1''))\<rparr>"

definition demo_doc :: "pystr \<Rightarrow> pystr \<Rightarrow> bool \<Rightarrow> document" where
  "demo_doc q sql ok =
     \<lparr>doc_id = q, doc_question = q, doc_sql = sql, doc_embedding = [1],
      doc_execution_time = 0, doc_was_successful = ok, doc_timestamp = 0,
      doc_result_preview = None\<rparr>"

definition start :: "document list \<Rightarrow> nat agent_state" where
  "start docs = \<lparr>world = 0, collection = docs, trace = []\<rparr>"

section \<open>What each operation changes\<close>

lemma external_frame:
  "external f s = (r, s') \<Longrightarrow> collection s' = collection s \<and> trace s' = trace s"
  by (auto simp: external_def split: prod.splits)

lemma external_total_frame:
  "external_total f s = (r, s') \<Longrightarrow> collection s' = collection s \<and> trace s' = trace s"
  by (auto simp: external_total_def split: prod.splits)

lemma find_regex_frame:
  "find_regex env p opts k s = (r, s') \<Longrightarrow> collection s' = collection s \<and> trace s' = trace s"
  by (auto simp: find_regex_def seq_def split: prod.splits sum.splits option.splits
           dest!: external_total_frame)

lemma vector_search_frame:
  "vector_search env emb k s = (r, s') \<Longrightarrow> collection s' = collection s \<and> trace s' = trace s"
  by (auto simp: vector_search_def try_except_def ret_def split: prod.splits sum.splits
           dest!: external_frame)

lemma text_search_frame:
  "text_search env q k s = (r, s') \<Longrightarrow> collection s' = collection s \<and> trace s' = trace s"
  by (auto simp: text_search_def dest!: find_regex_frame)

lemma find_similar_queries_frame:
  "find_similar_queries env q k s = (r, s') \<Longrightarrow> collection s' = collection s \<and> trace s' = trace s"
  by (auto simp: find_similar_queries_def seq_def try_except_def ret_def
           split: prod.splits sum.splits option.splits if_splits
           dest!: external_frame vector_search_frame text_search_frame)

lemma vn_generate_frame:
  "vn_generate env q ex s = (r, s') \<Longrightarrow>
     collection s' = collection s \<and> trace s' = trace s @ [GenerateCall q ex]"
  by (auto simp: vn_generate_def seq_def record_event_def split: prod.splits sum.splits
           dest!: external_frame)

lemma execute_query_frame:
  "execute_query env sql s = (r, s') \<Longrightarrow>
     collection s' = collection s \<and> trace s' = trace s @ [ExecuteCall sql]"
  by (auto simp: execute_query_def seq_def record_event_def ret_def external_def
        external_total_def split: prod.splits sum.splits)

lemma store_query_pair_trace:
  "store_query_pair env q sql t ok rp s = (r, s') \<Longrightarrow>
     trace s' = trace s @ [StoreCall q sql t ok rp]"
  by (auto simp: store_query_pair_def seq_def record_event_def external_def
        external_total_def replace_one_upsert_def split: prod.splits sum.splits option.splits)

lemma store_query_pair_raises_collection:
  "store_query_pair env q sql t ok rp s = (Inl e, s') \<Longrightarrow> collection s' = collection s"
  by (auto simp: store_query_pair_def seq_def record_event_def external_def
        external_total_def replace_one_upsert_def split: prod.splits sum.splits option.splits)

lemma new_events_append: "trace s' = trace s @ evs \<Longrightarrow> new_events s s' = evs"
  by (simp add: new_events_def)

lemma generate_sql_unfold:
  "generate_sql env q s =
     (case find_similar_queries env q 3 s of
        (Inl e, s1) \<Rightarrow> (Inl e, s1)
      | (Inr sim, s1) \<Rightarrow>
          (case vn_generate env q
                  (if example_pairs_of sim = [] then None else Some (example_pairs_of sim)) s1 of
             (Inl e, s2) \<Rightarrow> (Inl e, s2)
           | (Inr sql, s2) \<Rightarrow> (Inr (sql, sim), s2)))"
  by (auto simp: generate_sql_def seq_def ret_def Let_def split: prod.splits sum.splits)

lemma generate_sql_collection:
  "generate_sql env q s = (r, s') \<Longrightarrow> collection s' = collection s"
  by (auto simp: generate_sql_unfold split: prod.splits sum.splits if_splits
        dest!: find_similar_queries_frame vn_generate_frame)

lemma generate_sql_trace_ok:
  "find_similar_queries env q 3 s = (Inr sim, s1) \<Longrightarrow> generate_sql env q s = (r, s') \<Longrightarrow>
     trace s' = trace s @ [GenerateCall q
        (if example_pairs_of sim = [] then None else Some (example_pairs_of sim))]"
  by (auto simp: generate_sql_unfold split: prod.splits sum.splits if_splits
        dest!: find_similar_queries_frame vn_generate_frame)

lemma generate_sql_trace:
  "generate_sql env q s = (r, s') \<Longrightarrow>
     \<exists>evs. trace s' = trace s @ evs \<and> (\<forall>ev \<in> set evs. is_generate ev) \<and> length evs \<le> 1"
  by (auto simp: generate_sql_unfold split: prod.splits sum.splits if_splits
        dest!: find_similar_queries_frame vn_generate_frame)

lemma query_unfold:
  "query env q sr ra ap s =
     (case generate_sql env q s of
        (Inl e, s1) \<Rightarrow> (Inl e, s1)
      | (Inr (sql, sim), s1) \<Rightarrow>
          if ra \<and> \<not> ap then (Inr (awaiting_response q sql sim), s1)
          else (case attempt env sql s1 of
                  (Inl e, s2) \<Rightarrow> (Inl e, s2)
                | (Inr out, s2) \<Rightarrow>
                    if sr then
                      (case store_query_pair env q sql (o_execution_time out)
                              (o_was_successful out) (o_result_preview out) s2 of
                         (Inl e, s3) \<Rightarrow> (Inl e, s3)
                       | (Inr u, s3) \<Rightarrow> (Inr (final_response q sql sim ra ap out), s3))
                    else (Inr (final_response q sql sim ra ap out), s2)))"
  by (auto simp: query_def seq_def ret_def split: prod.splits sum.splits)

lemma attempt_raises:
  "execute_query env sql s = (Inl e, s') \<Longrightarrow>
   attempt env sql s =
     (Inr \<lparr>o_was_successful = False, o_error_message = Some (str e), o_execution_time = 0,
           o_df = None, o_result_preview = None\<rparr>, s')"
  by (simp add: attempt_def try_except_def seq_def ret_def)

lemma attempt_frame:
  "attempt env sql s = (r, s') \<Longrightarrow>
     collection s' = collection s \<and> trace s' = trace s @ [ExecuteCall sql] \<and> (\<exists>out. r = Inr out)"
  by (auto simp: attempt_def try_except_def seq_def ret_def
        split: prod.splits sum.splits dest!: execute_query_frame external_frame)

lemma starts_with_append: "starts_with p (p @ r)"
  by (induction p) auto

lemma py_in_append: "py_in p (a @ p @ b)"
proof (induction a)
  case Nil
  show ?case by (cases "p @ b") (use starts_with_append [of p b] in auto)
next
  case (Cons c a)
  then show ?case by simp
qed

lemma py_in_suffix: "py_in (py ''failed to store'') (m @ store_error_suffix se)"
proof -
  have lit: "py '' (Additionally, failed to store query: ''
      = py '' (Additionally, '' @ py ''failed to store'' @ py '' query: ''"
    by (simp add: py_def)
  have "m @ store_error_suffix se =
      (m @ py '' (Additionally, '') @ py ''failed to store'' @ (py '' query: '' @ str se @ py '')'')"
    by (simp only: store_error_suffix_def lit append_assoc)
  then show ?thesis by (simp only: py_in_append)
qed

subsection \<open>Upserts\<close>

lemma upsert_doc_ids:
  "doc_id d = i \<Longrightarrow> set (map doc_id (upsert_doc i d xs)) = insert i (set (map doc_id xs))"
  by (induction xs) auto

lemma upsert_doc_distinct:
  "doc_id d = i \<Longrightarrow> distinct (map doc_id xs) \<Longrightarrow> distinct (map doc_id (upsert_doc i d xs))"
proof (induction xs)
  case Nil
  then show ?case by simp
next
  case (Cons x xs)
  show ?case
  proof (cases "doc_id x = i")
    case True
    with Cons.prems show ?thesis by simp
  next
    case False
    with Cons upsert_doc_ids [of d i xs] show ?thesis by simp
  qed
qed

lemma upsert_doc_filter:
  "doc_id d = i \<Longrightarrow> distinct (map doc_id xs) \<Longrightarrow>
     filter (\<lambda>x. doc_id x = i) (upsert_doc i d xs) = [d]"
proof (induction xs)
  case Nil
  then show ?case by simp
next
  case (Cons x xs)
  show ?case
  proof (cases "doc_id x = i")
    case True
    with Cons.prems have "i \<notin> doc_id ` set xs" by simp
    then have "\<forall>y \<in> set xs. doc_id y \<noteq> i" by blast
    then have "filter (\<lambda>x. doc_id x = i) xs = []" by (simp add: filter_empty_conv)
    with True Cons.prems show ?thesis by simp
  next
    case False
    with Cons show ?thesis by simp
  qed
qed

lemma upsert_doc_rest:
  "doc_id d = i \<Longrightarrow>
     filter (\<lambda>x. doc_id x \<noteq> i) (upsert_doc i d xs) = filter (\<lambda>x. doc_id x \<noteq> i) xs"
  by (induction xs) auto

lemma upsert_doc_length:
  "i \<in> set (map doc_id xs) \<Longrightarrow> length (upsert_doc i d xs) = length xs"
  by (induction xs) auto

lemma store_query_pair_returns:
  "store_query_pair env q sql t ok rp s = (Inr u, s') \<Longrightarrow>
     \<exists>embedding now.
       collection s' = upsert_doc (md5_hexdigest env q)
          (make_document env q sql embedding t ok now rp) (collection s)"
  apply (auto simp: store_query_pair_def seq_def record_event_def external_def
        external_total_def replace_one_upsert_def split: prod.splits sum.splits option.splits)
  apply blast
  done

lemma doc_id_make_document [simp]:
  "doc_id (make_document env q sql emb t ok now rp) = md5_hexdigest env q"
  by (simp add: make_document_def)

lemma store_query_pair_distinct:
  assumes "distinct (map doc_id (collection s))"
    and "store_query_pair env q sql t ok rp s = (r, s')"
  shows "distinct (map doc_id (collection s'))"
proof (cases r)
  case (Inl e)
  with assms show ?thesis by (simp add: store_query_pair_raises_collection)
next
  case (Inr u)
  with assms(2) obtain embedding now where
    "collection s' = upsert_doc (md5_hexdigest env q)
          (make_document env q sql embedding t ok now rp) (collection s)"
    using store_query_pair_returns by blast
  with assms(1) show ?thesis by (simp add: upsert_doc_distinct)
qed

lemma upsert_doc_set:
  "set (upsert_doc i d xs) \<subseteq> insert d (set xs)"
  by (induction xs) auto

lemma store_query_pair_keyed:
  assumes "\<forall>d \<in> set (collection s). doc_id d = md5_hexdigest env (doc_question d)"
    and "store_query_pair env q sql t ok rp s = (r, s')"
  shows "\<forall>d \<in> set (collection s'). doc_id d = md5_hexdigest env (doc_question d)"
proof (cases r)
  case (Inl e)
  with assms show ?thesis by (simp add: store_query_pair_raises_collection)
next
  case (Inr u)
  with assms(2) obtain embedding now where
    c: "collection s' = upsert_doc (md5_hexdigest env q)
          (make_document env q sql embedding t ok now rp) (collection s)"
    using store_query_pair_returns by blast
  have "doc_id (make_document env q sql embedding t ok now rp)
      = md5_hexdigest env (doc_question (make_document env q sql embedding t ok now rp))"
    by (simp add: make_document_def)
  with assms(1) c upsert_doc_set [of "md5_hexdigest env q"
      "make_document env q sql embedding t ok now rp" "collection s"]
  show ?thesis by auto
qed

lemma store_query_pair_present:
  assumes "store_query_pair env q sql t ok rp s = (Inr u, s')"
  shows "md5_hexdigest env q \<in> set (map doc_id (collection s'))"
proof -
  from assms obtain embedding now where
    "collection s' = upsert_doc (md5_hexdigest env q)
          (make_document env q sql embedding t ok now rp) (collection s)"
    using store_query_pair_returns by blast
  then show ?thesis
    using upsert_doc_ids [of "make_document env q sql embedding t ok now rp"
        "md5_hexdigest env q" "collection s"]
    by simp
qed

lemma filter_through:
  "\<forall>x \<in> set xs. P x \<longrightarrow> R x \<Longrightarrow> filter P xs = filter P (filter R xs)"
  by (induction xs) auto

lemma store_query_pair_stores:
  assumes "store_query_pair env q sql t ok rp s = (Inr u, s')"
    and "model_encode env q (world s) = (Inr embedding, w1)"
    and "datetime_now env w1 = (now, w2)"
  shows "collection s' = upsert_doc (md5_hexdigest env q)
          (make_document env q sql embedding t ok now rp) (collection s)"
  using assms
  by (auto simp: store_query_pair_def seq_def record_event_def external_def
        external_total_def replace_one_upsert_def split: prod.splits sum.splits option.splits)

lemma vector_search_unfold:
  "vector_search env emb k s =
     (case vector_aggregate env (collection s) emb k (world s) of
        (Inl e, w') \<Rightarrow> (Inr [], s\<lparr>world := w'\<rparr>)
      | (Inr xs, w') \<Rightarrow> (Inr xs, s\<lparr>world := w'\<rparr>))"
  by (simp add: vector_search_def try_except_def external_def ret_def
        split: prod.splits sum.splits)

lemma text_search_unfold:
  "text_search env q k s =
     (case mongo_fault env (world s) of
        (Some e, w') \<Rightarrow> (Inl e, s\<lparr>world := w'\<rparr>)
      | (None, w') \<Rightarrow>
          (case regex_compile env (join (py ''|'') (keywords_of env q)) (py ''i'') of
             Inl e \<Rightarrow> (Inl e, s\<lparr>world := w'\<rparr>)
           | Inr matches \<Rightarrow>
               (Inr (map project (cursor_limit k
                  (filter (\<lambda>d. matches (doc_question d)) (collection s)))), s\<lparr>world := w'\<rparr>)))"
  by (simp add: text_search_def find_regex_def seq_def external_total_def
        split: prod.splits sum.splits option.splits)

lemma find_similar_queries_fallback:
  assumes enc: "model_encode env q (world s) = (Inr emb, w1)"
    and vec: "vector_aggregate env (collection s) emb k w1 = (rv, w2)"
    and fb: "(\<exists>e. rv = Inl e) \<or> rv = Inr []"
  shows "find_similar_queries env q k s = text_search env q k (s\<lparr>world := w2\<rparr>)"
  using assms
  by (auto simp: find_similar_queries_def seq_def try_except_def ret_def external_def
        vector_search_unfold)

lemma cursor_limit_pos: "0 < k \<Longrightarrow> cursor_limit k xs = take (nat k) xs"
  by (simp add: cursor_limit_def)

lemma keywords_of_short:
  assumes "\<forall>word \<in> set (py_split (str_lower env question)). length word \<le> 3"
  shows "keywords_of env question = []"
proof -
  from assms have "\<forall>w \<in> set (py_split (str_lower env question)). \<not> 3 < length w"
    by (simp add: not_less)
  then show ?thesis
    unfolding keywords_of_def by (simp only: filter_empty_conv)
qed

lemma query_after_generation:
  assumes gen: "generate_sql env q s = (g, s1)"
    and run: "query env q sr ra ap s = (r, s')"
  shows "\<exists>evs. trace s' = trace s1 @ evs \<and> filter is_generate evs = []
           \<and> (\<forall>sql sim. g = Inr (sql, sim) \<and> \<not> (ra \<and> \<not> ap) \<longrightarrow> take 1 evs = [ExecuteCall sql])"
proof (cases g)
  case (Inl e)
  with gen run have "s' = s1" by (simp add: query_unfold)
  with Inl show ?thesis by simp
next
  case (Inr p)
  obtain sql sim where p: "p = (sql, sim)" by (cases p)
  show ?thesis
  proof (cases "ra \<and> \<not> ap")
    case True
    with gen run Inr p have "s' = s1" by (simp add: query_unfold)
    with True show ?thesis by simp
  next
    case False
    obtain a s2 where att: "attempt env sql s1 = (a, s2)"
      by (cases "attempt env sql s1")
    from attempt_frame [OF att] obtain out where
      t2: "trace s2 = trace s1 @ [ExecuteCall sql]" and a: "a = Inr out"
      by blast
    show ?thesis
    proof (cases sr)
      case True
      obtain r3 s3 where st: "store_query_pair env q sql (o_execution_time out)
          (o_was_successful out) (o_result_preview out) s2 = (r3, s3)"
        by (cases "store_query_pair env q sql (o_execution_time out)
          (o_was_successful out) (o_result_preview out) s2")
      from gen run Inr p False att a True st have "s' = s3"
        by (auto simp: query_unfold split: sum.splits)
      with store_query_pair_trace [OF st] t2 Inr p show ?thesis by simp
    next
      case sr: False
      from gen run Inr p False att a sr have "s' = s2"
        by (auto simp: query_unfold)
      with t2 Inr p show ?thesis by simp
    qed
  qed
qed

lemma py_in_nil: "py_in [] s"
  by (cases s) simp_all

section \<open>The claims\<close>

subsection \<open>C1: the approval gate\<close>

text \<open>
  Claim C1. A call of \<^verbatim>\<open>query\<close> with \<^verbatim>\<open>require_approval=True\<close> and \<^verbatim>\<open>approved=False\<close> never calls
  \<^verbatim>\<open>execute_query\<close> and never calls \<^verbatim>\<open>store_query_pair\<close>, whatever the question, whatever
  \<^verbatim>\<open>store_results\<close> and whatever the collaborators answer: the events the call adds to the
  trace hold no \<open>ExecuteCall\<close> and no \<open>StoreCall\<close>, and the collection is left as it was.
\<close>

theorem approval_gate_blocks_execution_and_storage:
  "query env question store_results True False s = (r, s') \<Longrightarrow>
     collection s' = collection s \<and>
     trace s' = trace s @ new_events s s' \<and>
     (\<forall>ev \<in> set (new_events s s'). \<not> is_execute ev \<and> \<not> is_store ev)"
proof -
  assume q: "query env question store_results True False s = (r, s')"
  obtain g s1 where g: "generate_sql env question s = (g, s1)"
    by (cases "generate_sql env question s") auto
  from q g have s': "s' = s1"
    by (auto simp: query_unfold split: sum.splits prod.splits)
  from generate_sql_trace [OF g] obtain evs where
    evs: "trace s1 = trace s @ evs" "\<forall>ev \<in> set evs. is_generate ev"
    by blast
  have ne: "new_events s s1 = evs"
    using evs(1) by (rule new_events_append)
  have "\<forall>ev \<in> set evs. \<not> is_execute ev \<and> \<not> is_store ev"
  proof
    fix ev assume "ev \<in> set evs"
    with evs(2) have "is_generate ev" by blast
    then show "\<not> is_execute ev \<and> \<not> is_store ev" by (cases ev) auto
  qed
  with generate_sql_collection [OF g] evs(1) ne s' show ?thesis by simp
qed

text \<open>
  Claim C1 on a run: one stored query matches, the generator is called with it as example,
  and nothing is executed or stored.
\<close>

theorem approval_gate_blocks_witness:
  "query (demo_env encoder_ok no_faults fixed_sql False) (py ''show sales'') True True False
      (start [demo_doc (py ''sales by month'') (py ''SELECT a'') True])
     = (Inr (awaiting_response (py ''show sales'') (py ''SELECT 1'')
               [project (demo_doc (py ''sales by month'') (py ''SELECT a'') True)]),
        \<lparr>world = 4, collection = [demo_doc (py ''sales by month'') (py ''SELECT a'') True],
         trace = [GenerateCall (py ''show sales'') (Some [((py ''sales by month''), (py ''SELECT a''))])]\<rparr>)
   \<and> filter (\<lambda>ev. is_execute ev \<or> is_store ev)
        (new_events (start [demo_doc (py ''sales by month'') (py ''SELECT a'') True])
          \<lparr>world = 4, collection = [demo_doc (py ''sales by month'') (py ''SELECT a'') True],
           trace = [GenerateCall (py ''show sales'') (Some [((py ''sales by month''), (py ''SELECT a''))])]\<rparr>) = []"
proof -
  have run: "query (demo_env encoder_ok no_faults fixed_sql False) (py ''show sales'') True True False
      (start [demo_doc (py ''sales by month'') (py ''SELECT a'') True])
     = (Inr (awaiting_response (py ''show sales'') (py ''SELECT 1'')
               [project (demo_doc (py ''sales by month'') (py ''SELECT a'') True)]),
        \<lparr>world = 4, collection = [demo_doc (py ''sales by month'') (py ''SELECT a'') True],
         trace = [GenerateCall (py ''show sales'') (Some [((py ''sales by month''), (py ''SELECT a''))])]\<rparr>)"
    by code_simp
  from approval_gate_blocks_execution_and_storage [OF run] run
  show ?thesis by (simp add: filter_empty_conv)
qed

subsection \<open>C2: a store failure after an execution error\<close>

text \<open>
  Claim C2 says that in \<^verbatim>\<open>query\<close> a failure of the store after an execution error is caught and
  appended to \<^verbatim>\<open>error_message\<close>. In \<^verbatim>\<open>query\<close> the call of \<^verbatim>\<open>store_query_pair\<close> stands outside the
  try block: with BigQuery rejecting the SQL and the server refusing the write, \<^verbatim>\<open>query\<close> raises
  the store's exception and returns no response.
\<close>

theorem store_failure_counterexample:
  "query (demo_env encoder_ok (store_down_at 8) fixed_sql True) (py ''revenue by region'')
      True False False (start [])
     = (Inl (Exception (py ''store down'')),
        \<lparr>world = 9, collection = [],
         trace = [GenerateCall (py ''revenue by region'') None, ExecuteCall (py ''SELECT 1''),
                  StoreCall (py ''revenue by region'') (py ''SELECT 1'') 0 False None]\<rparr>)"
  by code_simp

text \<open>
  Claim C2, as the code has it. When \<^verbatim>\<open>execute_query\<close> raises and \<^verbatim>\<open>store_results\<close> is true:
  the endpoint \<^verbatim>\<open>store_question_sql_pair\<close> of api.py catches a failure of \<^verbatim>\<open>store_query_pair\<close>
  separately, appends its message to \<^verbatim>\<open>error_message\<close> and always returns a response with
  \<^verbatim>\<open>was_successful = False\<close>; \<^verbatim>\<open>MongoDBSQLAgent.query\<close> does not catch it, the exception of
  \<^verbatim>\<open>store_query_pair\<close> is raised to the caller of \<^verbatim>\<open>query\<close>.
\<close>

theorem store_failure_after_execution_error:
  assumes ex: "execute_query env sql s1 = (Inl e, s2)"
  shows "store_question_sql_pair env question sql True s1 =
           (case store_query_pair env question sql 0 False None s2 of
              (Inr u, s3) \<Rightarrow>
                (Inr [(''question'', PStr question), (''sql'', PStr sql),
                      (''was_successful'', PBool False),
                      (''error_message'', PStr (str e)),
                      (''stored'', PBool (\<not> py_in (py ''failed to store'') (str e)))], s3)
            | (Inl store_error, s3) \<Rightarrow>
                (Inr [(''question'', PStr question), (''sql'', PStr sql),
                      (''was_successful'', PBool False),
                      (''error_message'', PStr (str e @ (py '' (Additionally, failed to store query: '')
                           @ str store_error @ (py '')''))),
                      (''stored'', PBool False)], s3))
         \<and> (generate_sql env question s = (Inr (sql, similar_queries), s1)
              \<and> \<not> (require_approval \<and> \<not> approved)
              \<and> store_query_pair env question sql 0 False None s2 = (Inl store_error, s3)
            \<longrightarrow> query env question True require_approval approved s = (Inl store_error, s3))"
proof (intro conjI impI)
  show "store_question_sql_pair env question sql True s1 =
           (case store_query_pair env question sql 0 False None s2 of
              (Inr u, s3) \<Rightarrow>
                (Inr [(''question'', PStr question), (''sql'', PStr sql),
                      (''was_successful'', PBool False),
                      (''error_message'', PStr (str e)),
                      (''stored'', PBool (\<not> py_in (py ''failed to store'') (str e)))], s3)
            | (Inl store_error, s3) \<Rightarrow>
                (Inr [(''question'', PStr question), (''sql'', PStr sql),
                      (''was_successful'', PBool False),
                      (''error_message'', PStr (str e @ (py '' (Additionally, failed to store query: '')
                           @ str store_error @ (py '')''))),
                      (''stored'', PBool False)], s3))"
    using ex py_in_suffix [of "str e"]
    by (auto simp: store_question_sql_pair_def try_except_def seq_def ret_def store_error_suffix_def
          split: prod.splits sum.splits)
next
  assume a: "generate_sql env question s = (Inr (sql, similar_queries), s1)
              \<and> \<not> (require_approval \<and> \<not> approved)
              \<and> store_query_pair env question sql 0 False None s2 = (Inl store_error, s3)"
  then show "query env question True require_approval approved s = (Inl store_error, s3)"
    using attempt_raises [OF ex] by (auto simp: query_unfold)
qed

text \<open>
  Claim C2 as amended, on a run where BigQuery rejects the SQL and the server refuses the
  write: the endpoint answers with both messages, \<^verbatim>\<open>query\<close> raises.
\<close>

theorem store_failure_after_execution_error_witness:
  "execute_query (demo_env encoder_ok (store_down_at 8) fixed_sql True) (py ''SELECT 1'')
      \<lparr>world = 4, collection = [], trace = [GenerateCall (py ''show sales'') None]\<rparr>
     = (Inl (Exception (py ''bad sql'')),
        \<lparr>world = 6, collection = [],
         trace = [GenerateCall (py ''show sales'') None, ExecuteCall (py ''SELECT 1'')]\<rparr>)
   \<and> store_question_sql_pair (demo_env encoder_ok (store_down_at 8) fixed_sql True)
        (py ''show sales'') (py ''SELECT 1'') True
        \<lparr>world = 4, collection = [], trace = [GenerateCall (py ''show sales'') None]\<rparr>
     = (Inr [(''question'', PStr (py ''show sales'')), (''sql'', PStr (py ''SELECT 1'')),
             (''was_successful'', PBool False),
             (''error_message'',
                PStr (py ''bad sql (Additionally, failed to store query: store down)'')),
             (''stored'', PBool False)],
        \<lparr>world = 9, collection = [],
         trace = [GenerateCall (py ''show sales'') None, ExecuteCall (py ''SELECT 1''),
                  StoreCall (py ''show sales'') (py ''SELECT 1'') 0 False None]\<rparr>)
   \<and> query (demo_env encoder_ok (store_down_at 8) fixed_sql True) (py ''show sales'')
        True False False (start [])
     = (Inl (Exception (py ''store down'')),
        \<lparr>world = 9, collection = [],
         trace = [GenerateCall (py ''show sales'') None, ExecuteCall (py ''SELECT 1''),
                  StoreCall (py ''show sales'') (py ''SELECT 1'') 0 False None]\<rparr>)"
proof -
  let ?E = "demo_env encoder_ok (store_down_at 8) fixed_sql True"
  let ?S1 = "\<lparr>world = 4, collection = [], trace = [GenerateCall (py ''show sales'') None]\<rparr>
               :: nat agent_state"
  let ?S2 = "\<lparr>world = 6, collection = [],
         trace = [GenerateCall (py ''show sales'') None, ExecuteCall (py ''SELECT 1'')]\<rparr> :: nat agent_state"
  let ?S3 = "\<lparr>world = 9, collection = [],
         trace = [GenerateCall (py ''show sales'') None, ExecuteCall (py ''SELECT 1''),
                  StoreCall (py ''show sales'') (py ''SELECT 1'') 0 False None]\<rparr> :: nat agent_state"
  have ex: "execute_query ?E (py ''SELECT 1'') ?S1 = (Inl (Exception (py ''bad sql'')), ?S2)"
    by code_simp
  have gen: "generate_sql ?E (py ''show sales'') (start []) = (Inr ((py ''SELECT 1''), []), ?S1)"
    by code_simp
  have st: "store_query_pair ?E (py ''show sales'') (py ''SELECT 1'') 0 False None ?S2
      = (Inl (Exception (py ''store down'')), ?S3)"
    by code_simp
  note inst = store_failure_after_execution_error [OF ex, where question = "(py ''show sales'')"
      and s = "start []" and similar_queries = "[]" and require_approval = False
      and approved = False and store_error = "Exception (py ''store down'')" and ?s3.0 = ?S3]
  from inst gen st ex show ?thesis by (simp add: py_def)
qed

subsection \<open>C3: an execution failure is stored and reported\<close>

text \<open>
  Claim C3 says that \<^verbatim>\<open>query\<close> returns a structured response whenever the executor raises and
  \<^verbatim>\<open>store_results\<close> is true. When the store call then raises as well, \<^verbatim>\<open>query\<close> returns nothing:
  here the approved call ends with the store's exception.
\<close>

theorem execution_failure_counterexample:
  "query (demo_env encoder_ok (store_down_at 8) fixed_sql True) (py ''total revenue'')
      True True True (start [])
     = (Inl (Exception (py ''store down'')),
        \<lparr>world = 9, collection = [],
         trace = [GenerateCall (py ''total revenue'') None, ExecuteCall (py ''SELECT 1''),
                  StoreCall (py ''total revenue'') (py ''SELECT 1'') 0 False None]\<rparr>)"
  by code_simp

text \<open>
  Claim C3, as the code has it. When generation has succeeded, the gate is passed,
  \<^verbatim>\<open>execute_query\<close> raises \<open>e\<close> and \<^verbatim>\<open>store_results\<close> is true, then \<^verbatim>\<open>query\<close> calls
  \<^verbatim>\<open>store_query_pair\<close> exactly once, with \<^verbatim>\<open>was_successful=False\<close>, \<^verbatim>\<open>execution_time=0\<close> and
  \<^verbatim>\<open>result_preview=None\<close>; and, provided that call returns, \<^verbatim>\<open>query\<close> returns the response
  with \<^verbatim>\<open>was_successful = False\<close>, \<^verbatim>\<open>execution_time = 0\<close>, \<^verbatim>\<open>error_message = str(e)\<close> and neither
  \<^verbatim>\<open>results\<close> nor \<^verbatim>\<open>result_preview\<close>. When the store call raises, that exception leaves
  \<^verbatim>\<open>query\<close>.
\<close>

theorem execution_failure_is_stored_and_reported:
  assumes gen: "generate_sql env question s = (Inr (sql, similar_queries), s1)"
    and gate: "\<not> (require_approval \<and> \<not> approved)"
    and ex: "execute_query env sql s1 = (Inl e, s2)"
    and st: "store_query_pair env question sql 0 False None s2 = (r3, s3)"
  shows "new_events s1 s3 = [ExecuteCall sql, StoreCall question sql 0 False None]
       \<and> query env question True require_approval approved s =
           (case r3 of
              Inl store_error \<Rightarrow> (Inl store_error, s3)
            | Inr u \<Rightarrow>
                (Inr [(''question'', PStr question), (''sql'', PStr sql),
                      (''was_successful'', PBool False), (''execution_time'', PNum 0),
                      (''similar_queries'', PSimilar similar_queries),
                      (''requires_approval'', PBool require_approval),
                      (''approved'', PBool approved),
                      (''error_message'', PStr (str e))], s3))"
proof -
  have t2: "trace s2 = trace s1 @ [ExecuteCall sql]"
    using execute_query_frame [OF ex] by simp
  have t3: "trace s3 = trace s2 @ [StoreCall question sql 0 False None]"
    using st by (rule store_query_pair_trace)
  have ne: "new_events s1 s3 = [ExecuteCall sql, StoreCall question sql 0 False None]"
    by (rule new_events_append) (simp add: t2 t3)
  have "query env question True require_approval approved s =
           (case r3 of
              Inl store_error \<Rightarrow> (Inl store_error, s3)
            | Inr u \<Rightarrow>
                (Inr [(''question'', PStr question), (''sql'', PStr sql),
                      (''was_successful'', PBool False), (''execution_time'', PNum 0),
                      (''similar_queries'', PSimilar similar_queries),
                      (''requires_approval'', PBool require_approval),
                      (''approved'', PBool approved),
                      (''error_message'', PStr (str e))], s3))"
    using gen gate st attempt_raises [OF ex]
    by (auto simp: query_unfold final_response_def split: sum.splits)
  with ne show ?thesis by simp
qed

text \<open>
  Claim C3 as amended, on a run where BigQuery rejects the SQL and the store accepts the
  write.
\<close>

theorem execution_failure_is_stored_and_reported_witness:
  "query (demo_env encoder_ok no_faults fixed_sql True) (py ''show sales'') True True True (start [])
     = (Inr [(''question'', PStr (py ''show sales'')), (''sql'', PStr (py ''SELECT 1'')),
             (''was_successful'', PBool False), (''execution_time'', PNum 0),
             (''similar_queries'', PSimilar []),
             (''requires_approval'', PBool True), (''approved'', PBool True),
             (''error_message'', PStr (py ''bad sql''))],
        \<lparr>world = 9,
         collection = [\<lparr>doc_id = (py ''show sales''), doc_question = (py ''show sales''),
            doc_sql = (py ''SELECT 1''), doc_embedding = [1], doc_execution_time = 0,
            doc_was_successful = False, doc_timestamp = 7, doc_result_preview = None\<rparr>],
         trace = [GenerateCall (py ''show sales'') None, ExecuteCall (py ''SELECT 1''),
                  StoreCall (py ''show sales'') (py ''SELECT 1'') 0 False None]\<rparr>)
   \<and> new_events \<lparr>world = 4 :: nat, collection = [], trace = [GenerateCall (py ''show sales'') None]\<rparr>
        \<lparr>world = 9,
         collection = [\<lparr>doc_id = (py ''show sales''), doc_question = (py ''show sales''),
            doc_sql = (py ''SELECT 1''), doc_embedding = [1], doc_execution_time = 0,
            doc_was_successful = False, doc_timestamp = 7, doc_result_preview = None\<rparr>],
         trace = [GenerateCall (py ''show sales'') None, ExecuteCall (py ''SELECT 1''),
                  StoreCall (py ''show sales'') (py ''SELECT 1'') 0 False None]\<rparr>
     = [ExecuteCall (py ''SELECT 1''), StoreCall (py ''show sales'') (py ''SELECT 1'') 0 False None]"
proof -
  let ?E = "demo_env encoder_ok no_faults fixed_sql True"
  let ?S1 = "\<lparr>world = 4, collection = [], trace = [GenerateCall (py ''show sales'') None]\<rparr>
               :: nat agent_state"
  let ?S2 = "\<lparr>world = 6, collection = [],
         trace = [GenerateCall (py ''show sales'') None, ExecuteCall (py ''SELECT 1'')]\<rparr> :: nat agent_state"
  let ?S3 = "\<lparr>world = 9,
         collection = [\<lparr>doc_id = (py ''show sales''), doc_question = (py ''show sales''),
            doc_sql = (py ''SELECT 1''), doc_embedding = [1], doc_execution_time = 0,
            doc_was_successful = False, doc_timestamp = 7, doc_result_preview = None\<rparr>],
         trace = [GenerateCall (py ''show sales'') None, ExecuteCall (py ''SELECT 1''),
                  StoreCall (py ''show sales'') (py ''SELECT 1'') 0 False None]\<rparr> :: nat agent_state"
  have gen: "generate_sql ?E (py ''show sales'') (start []) = (Inr ((py ''SELECT 1''), []), ?S1)"
    by code_simp
  have gate: "\<not> (True \<and> \<not> True)" by simp
  have ex: "execute_query ?E (py ''SELECT 1'') ?S1 = (Inl (Exception (py ''bad sql'')), ?S2)"
    by code_simp
  have st: "store_query_pair ?E (py ''show sales'') (py ''SELECT 1'') 0 False None ?S2 = (Inr (), ?S3)"
    by code_simp
  from execution_failure_is_stored_and_reported [OF gen gate ex st]
  show ?thesis by simp
qed

subsection \<open>C4: the examples given to the generator\<close>



subsection \<open>C5: storing the same question twice\<close>

text \<open>
  Claim C5. The \<^verbatim>\<open>_id\<close> of the stored document is the digest of the question text as it was
  given, and of nothing else. On a collection whose \<^verbatim>\<open>_id\<close>s are distinct, after a call of
  \<^verbatim>\<open>store_query_pair\<close> for a question followed by a second call for the same question that
  returns, exactly one document has that \<^verbatim>\<open>_id\<close>, and every field of it is the second call's:
  its SQL, execution time and outcome, the embedding and the timestamp that the second call
  computed, and a \<^verbatim>\<open>result_preview\<close> only if the second call gave a non-empty one. Nothing of
  the first call's document is kept. Where every stored \<^verbatim>\<open>_id\<close> is the digest of its question
  (all documents written by \<^verbatim>\<open>store_query_pair\<close>), it is also the only document with that
  question. The second call adds no document when the first one returned, and it leaves the
  documents of other questions as they were.
\<close>

theorem upsert_twice_keeps_one_record:
  assumes ids: "distinct (map doc_id (collection s))"
    and first: "store_query_pair env question sql1 time1 ok1 preview1 s = (r1, s1)"
    and second: "store_query_pair env question sql2 time2 ok2 preview2 s1 = (Inr u, s2)"
    and enc: "model_encode env question (world s1) = (Inr embedding2, w1)"
    and now: "datetime_now env w1 = (now2, w2)"
  shows "distinct (map doc_id (collection s2))
       \<and> filter (\<lambda>d. doc_id d = md5_hexdigest env question) (collection s2) =
             [\<lparr>doc_id = md5_hexdigest env question, doc_question = question, doc_sql = sql2,
               doc_embedding = embedding2, doc_execution_time = time2,
               doc_was_successful = ok2, doc_timestamp = now2,
               doc_result_preview = (if truthy preview2 then preview2 else None)\<rparr>]
       \<and> ((\<forall>d \<in> set (collection s). doc_id d = md5_hexdigest env (doc_question d)) \<longrightarrow>
              filter (\<lambda>d. doc_question d = question) (collection s2) =
              [\<lparr>doc_id = md5_hexdigest env question, doc_question = question, doc_sql = sql2,
               doc_embedding = embedding2, doc_execution_time = time2,
               doc_was_successful = ok2, doc_timestamp = now2,
               doc_result_preview = (if truthy preview2 then preview2 else None)\<rparr>])
       \<and> ((\<exists>v. r1 = Inr v) \<longrightarrow> length (collection s2) = length (collection s1))
       \<and> filter (\<lambda>d. doc_id d \<noteq> md5_hexdigest env question) (collection s2)
           = filter (\<lambda>d. doc_id d \<noteq> md5_hexdigest env question) (collection s1)"
proof -
  let ?h = "md5_hexdigest env question"
  let ?d = "make_document env question sql2 embedding2 time2 ok2 now2 preview2"
  have ids1: "distinct (map doc_id (collection s1))"
    using ids first by (rule store_query_pair_distinct)
  have ids2: "distinct (map doc_id (collection s2))"
    using ids1 second by (rule store_query_pair_distinct)
  have c2: "collection s2 = upsert_doc ?h ?d (collection s1)"
    using second enc now by (rule store_query_pair_stores)
  have byid: "filter (\<lambda>d. doc_id d = ?h) (collection s2) = [?d]"
    using ids1 by (simp add: c2 upsert_doc_filter)
  have byq: "filter (\<lambda>d. doc_question d = question) (collection s2) = [?d]"
    if inv: "\<forall>d \<in> set (collection s). doc_id d = md5_hexdigest env (doc_question d)"
  proof -
    have inv1: "\<forall>d \<in> set (collection s1). doc_id d = md5_hexdigest env (doc_question d)"
      using inv first by (rule store_query_pair_keyed)
    have inv2: "\<forall>d \<in> set (collection s2). doc_id d = md5_hexdigest env (doc_question d)"
      using inv1 second by (rule store_query_pair_keyed)
    then have "\<forall>d \<in> set (collection s2). doc_question d = question \<longrightarrow> doc_id d = ?h"
      by auto
    then have "filter (\<lambda>d. doc_question d = question) (collection s2)
        = filter (\<lambda>d. doc_question d = question) (filter (\<lambda>d. doc_id d = ?h) (collection s2))"
      by (rule filter_through)
    also have "\<dots> = [?d]"
      by (simp add: byid) (simp add: make_document_def)
    finally show ?thesis .
  qed
  have len: "length (collection s2) = length (collection s1)" if "\<exists>v. r1 = Inr v"
  proof -
    from that first obtain v where "store_query_pair env question sql1 time1 ok1 preview1 s = (Inr v, s1)"
      by blast
    then have "?h \<in> set (map doc_id (collection s1))"
      by (rule store_query_pair_present)
    then show ?thesis by (simp only: c2 upsert_doc_length)
  qed
  have others: "filter (\<lambda>d. doc_id d \<noteq> ?h) (collection s2)
           = filter (\<lambda>d. doc_id d \<noteq> ?h) (collection s1)"
    unfolding c2 by (rule upsert_doc_rest) simp
  have d: "?d = \<lparr>doc_id = md5_hexdigest env question, doc_question = question, doc_sql = sql2,
               doc_embedding = embedding2, doc_execution_time = time2,
               doc_was_successful = ok2, doc_timestamp = now2,
               doc_result_preview = (if truthy preview2 then preview2 else None)\<rparr>"
    by (simp add: make_document_def)
  show ?thesis
    using ids2 byid byq len others unfolding d by blast
qed

text \<open>
  Claim C5 on a run: a successful record with a preview is replaced by a failed one without.
\<close>

theorem upsert_twice_keeps_one_record_witness:
  "store_query_pair (demo_env encoder_ok no_faults fixed_sql False)
      (py ''show sales'') (py ''SELECT 2'') 0 False None
      \<lparr>world = 3,
       collection = [demo_doc (py ''late orders'') (py ''SELECT 9'') True,
          \<lparr>doc_id = (py ''show sales''), doc_question = (py ''show sales''), doc_sql = (py ''SELECT 1''),
           doc_embedding = [1], doc_execution_time = 2, doc_was_successful = True,
           doc_timestamp = 1, doc_result_preview = Some (py ''n 1'')\<rparr>],
       trace = [StoreCall (py ''show sales'') (py ''SELECT 1'') 2 True (Some (py ''n 1''))]\<rparr>
     = (Inr (),
        \<lparr>world = 6,
         collection = [demo_doc (py ''late orders'') (py ''SELECT 9'') True,
          \<lparr>doc_id = (py ''show sales''), doc_question = (py ''show sales''), doc_sql = (py ''SELECT 2''),
           doc_embedding = [1], doc_execution_time = 0, doc_was_successful = False,
           doc_timestamp = 4, doc_result_preview = None\<rparr>],
         trace = [StoreCall (py ''show sales'') (py ''SELECT 1'') 2 True (Some (py ''n 1'')),
                  StoreCall (py ''show sales'') (py ''SELECT 2'') 0 False None]\<rparr>)
   \<and> distinct (map doc_id
         [demo_doc (py ''late orders'') (py ''SELECT 9'') True,
          \<lparr>doc_id = (py ''show sales''), doc_question = (py ''show sales''), doc_sql = (py ''SELECT 2''),
           doc_embedding = [1], doc_execution_time = 0, doc_was_successful = False,
           doc_timestamp = 4, doc_result_preview = None\<rparr>])
   \<and> filter (\<lambda>d. doc_question d = (py ''show sales''))
         [demo_doc (py ''late orders'') (py ''SELECT 9'') True,
          \<lparr>doc_id = (py ''show sales''), doc_question = (py ''show sales''), doc_sql = (py ''SELECT 2''),
           doc_embedding = [1], doc_execution_time = 0, doc_was_successful = False,
           doc_timestamp = 4, doc_result_preview = None\<rparr>]
       = [\<lparr>doc_id = (py ''show sales''), doc_question = (py ''show sales''), doc_sql = (py ''SELECT 2''),
           doc_embedding = [1], doc_execution_time = 0, doc_was_successful = False,
           doc_timestamp = 4, doc_result_preview = None\<rparr>]"
proof -
  let ?E = "demo_env encoder_ok no_faults fixed_sql False"
  let ?S1 = "\<lparr>world = 3,
       collection = [demo_doc (py ''late orders'') (py ''SELECT 9'') True,
          \<lparr>doc_id = (py ''show sales''), doc_question = (py ''show sales''), doc_sql = (py ''SELECT 1''),
           doc_embedding = [1], doc_execution_time = 2, doc_was_successful = True,
           doc_timestamp = 1, doc_result_preview = Some (py ''n 1'')\<rparr>],
       trace = [StoreCall (py ''show sales'') (py ''SELECT 1'') 2 True (Some (py ''n 1''))]\<rparr> :: nat agent_state"
  let ?S2 = "\<lparr>world = 6,
         collection = [demo_doc (py ''late orders'') (py ''SELECT 9'') True,
          \<lparr>doc_id = (py ''show sales''), doc_question = (py ''show sales''), doc_sql = (py ''SELECT 2''),
           doc_embedding = [1], doc_execution_time = 0, doc_was_successful = False,
           doc_timestamp = 4, doc_result_preview = None\<rparr>],
         trace = [StoreCall (py ''show sales'') (py ''SELECT 1'') 2 True (Some (py ''n 1'')),
                  StoreCall (py ''show sales'') (py ''SELECT 2'') 0 False None]\<rparr> :: nat agent_state"
  have ids: "distinct (map doc_id (collection (start [demo_doc (py ''late orders'') (py ''SELECT 9'') True])))"
    by (simp add: start_def)
  have first: "store_query_pair ?E (py ''show sales'') (py ''SELECT 1'') 2 True (Some (py ''n 1''))
      (start [demo_doc (py ''late orders'') (py ''SELECT 9'') True]) = (Inr (), ?S1)"
    by code_simp
  have second: "store_query_pair ?E (py ''show sales'') (py ''SELECT 2'') 0 False None ?S1 = (Inr (), ?S2)"
    by code_simp
  have keyed: "\<forall>d \<in> set (collection (start [demo_doc (py ''late orders'') (py ''SELECT 9'') True])).
      doc_id d = md5_hexdigest ?E (doc_question d)"
    by (simp add: start_def demo_doc_def demo_env_def)
  have enc: "model_encode ?E (py ''show sales'') (world ?S1) = (Inr [1], 4)"
    by (simp add: demo_env_def encoder_ok_def)
  have now: "datetime_now ?E 4 = (4, 5)"
    by (simp add: demo_env_def)
  from upsert_twice_keeps_one_record [OF ids first second enc now] keyed second
  show ?thesis
    by (auto simp: demo_env_def demo_doc_def truthy_def)
qed

subsection \<open>C6: the keyword fallback of retrieval\<close>

text \<open>
  Claim C6 says that the fallback returns at most \<^verbatim>\<open>top_k\<close> results for every \<^verbatim>\<open>top_k\<close>. The
  code passes \<^verbatim>\<open>top_k\<close> to the cursor's \<^verbatim>\<open>limit\<close>, where \<open>0\<close> means no limit: with
  \<^verbatim>\<open>top_k = 0\<close> and two matching documents, two results come back.
\<close>

theorem retrieval_limit_counterexample:
  "find_similar_queries (demo_env encoder_ok no_faults fixed_sql False) (py ''find orders'') 0
      (start [demo_doc (py ''orders in May'') (py ''SELECT 1'') True,
              demo_doc (py ''late Orders'') (py ''SELECT 2'') True])
     = (Inr [project (demo_doc (py ''orders in May'') (py ''SELECT 1'') True),
             project (demo_doc (py ''late Orders'') (py ''SELECT 2'') True)],
        \<lparr>world = 3,
         collection = [demo_doc (py ''orders in May'') (py ''SELECT 1'') True,
                       demo_doc (py ''late Orders'') (py ''SELECT 2'') True],
         trace = []\<rparr>)
   \<and> \<not> int (length [project (demo_doc (py ''orders in May'') (py ''SELECT 1'') True),
                      project (demo_doc (py ''late Orders'') (py ''SELECT 2'') True)]) \<le> 0"
  by code_simp

text \<open>
  Claim C6, as the code has it, for \<^verbatim>\<open>top_k\<close> at least 1. When the embedding is computed and
  the vector search raises or finds nothing, \<^verbatim>\<open>find_similar_queries\<close> does not propagate the
  vector search's error: its outcome is that of the keyword search alone. The keyword search
  lowercases the question, splits it at whitespace, keeps the words longer than 3 characters,
  matches the stored questions against the case-insensitive regular expression that joins
  these words with \<open>|\<close>, and returns the first \<^verbatim>\<open>top_k\<close> matching documents in the order of the
  store, projected; so at most \<^verbatim>\<open>top_k\<close> results.
\<close>

theorem retrieval_falls_back_to_keyword_search:
  assumes enc: "model_encode env question (world s) = (Inr embedding, w1)"
    and vec: "vector_aggregate env (collection s) embedding top_k w1 = (rv, w2)"
    and fb: "(\<exists>e. rv = Inl e) \<or> rv = Inr []"
    and pos: "0 < top_k"
  shows "find_similar_queries env question top_k s =
           (case mongo_fault env w2 of
              (Some e, w3) \<Rightarrow> (Inl e, s\<lparr>world := w3\<rparr>)
            | (None, w3) \<Rightarrow>
                (case regex_compile env
                        (join (py ''|'') (filter (\<lambda>word. length word > 3)
                                       (py_split (str_lower env question)))) (py ''i'') of
                   Inl e \<Rightarrow> (Inl e, s\<lparr>world := w3\<rparr>)
                 | Inr matches \<Rightarrow>
                     (Inr (map project (take (nat top_k)
                        (filter (\<lambda>d. matches (doc_question d)) (collection s)))),
                      s\<lparr>world := w3\<rparr>)))
       \<and> (\<forall>res s'. find_similar_queries env question top_k s = (Inr res, s')
             \<longrightarrow> int (length res) \<le> top_k)"
proof -
  have eq: "find_similar_queries env question top_k s =
           (case mongo_fault env w2 of
              (Some e, w3) \<Rightarrow> (Inl e, s\<lparr>world := w3\<rparr>)
            | (None, w3) \<Rightarrow>
                (case regex_compile env
                        (join (py ''|'') (filter (\<lambda>word. length word > 3)
                                       (py_split (str_lower env question)))) (py ''i'') of
                   Inl e \<Rightarrow> (Inl e, s\<lparr>world := w3\<rparr>)
                 | Inr matches \<Rightarrow>
                     (Inr (map project (take (nat top_k)
                        (filter (\<lambda>d. matches (doc_question d)) (collection s)))),
                      s\<lparr>world := w3\<rparr>)))"
    unfolding find_similar_queries_fallback [OF enc vec fb] text_search_unfold
      cursor_limit_pos [OF pos] keywords_of_def
    by (simp split: prod.splits option.splits sum.splits)
  have "int (length res) \<le> top_k"
    if "find_similar_queries env question top_k s = (Inr res, s')" for res s'
    using that pos unfolding eq
    by (auto split: prod.splits option.splits sum.splits)
  with eq show ?thesis by blast
qed

text \<open>
  Claim C6 as amended, on a run with \<^verbatim>\<open>top_k = 1\<close>: the vector search raises, two stored
  questions contain the word "orders", and the first one is returned.
\<close>

theorem retrieval_falls_back_witness:
  "model_encode (demo_env encoder_ok no_faults fixed_sql False) (py ''find orders'') 0 = (Inr [1], 1)
   \<and> vector_aggregate (demo_env encoder_ok no_faults fixed_sql False)
        [demo_doc (py ''orders in May'') (py ''SELECT 1'') True, demo_doc (py ''late Orders'') (py ''SELECT 2'') True]
        [1] 1 1 = (Inl (Exception (py ''no vector index'')), 2)
   \<and> find_similar_queries (demo_env encoder_ok no_faults fixed_sql False) (py ''find orders'') 1
      (start [demo_doc (py ''orders in May'') (py ''SELECT 1'') True,
              demo_doc (py ''late Orders'') (py ''SELECT 2'') True])
     = (Inr [project (demo_doc (py ''orders in May'') (py ''SELECT 1'') True)],
        \<lparr>world = 3,
         collection = [demo_doc (py ''orders in May'') (py ''SELECT 1'') True,
                       demo_doc (py ''late Orders'') (py ''SELECT 2'') True],
         trace = []\<rparr>)
   \<and> int (length [project (demo_doc (py ''orders in May'') (py ''SELECT 1'') True)]) \<le> 1"
proof -
  let ?E = "demo_env encoder_ok no_faults fixed_sql False"
  let ?docs = "[demo_doc (py ''orders in May'') (py ''SELECT 1'') True,
                demo_doc (py ''late Orders'') (py ''SELECT 2'') True]"
  have enc: "model_encode ?E (py ''find orders'') (world (start ?docs)) = (Inr [1], 1)"
    by (simp add: demo_env_def encoder_ok_def start_def)
  have vec: "vector_aggregate ?E (collection (start ?docs)) [1] 1 1
      = (Inl (Exception (py ''no vector index'')), 2)"
    by (simp add: demo_env_def start_def)
  have fb: "(\<exists>e. (Inl (Exception (py ''no vector index'')) :: exn + similar list) = Inl e)
      \<or> (Inl (Exception (py ''no vector index'')) :: exn + similar list) = Inr []"
    by simp
  have pos: "(0::int) < 1" by simp
  have run: "find_similar_queries ?E (py ''find orders'') 1 (start ?docs)
     = (Inr [project (demo_doc (py ''orders in May'') (py ''SELECT 1'') True)],
        \<lparr>world = 3, collection = ?docs, trace = []\<rparr>)"
    by code_simp
  note inst = retrieval_falls_back_to_keyword_search [OF enc vec fb pos]
  from inst have "int (length [project (demo_doc (py ''orders in May'') (py ''SELECT 1'') True)]) \<le> 1"
    using run by blast
  with run enc vec show ?thesis by (simp add: start_def)
qed

subsection \<open>C7: the approved call generates again\<close>

text \<open>
  Claim C7. A preview call of \<^verbatim>\<open>query\<close> (\<^verbatim>\<open>require_approval=True\<close>, \<^verbatim>\<open>approved=False\<close>) followed
  by the approved call for the same question calls the generator exactly twice, once in each
  call, whenever retrieval returns in both calls. The approved call executes the SQL that its
  own generator call returned; nothing of the preview is reused.
\<close>

theorem approved_call_regenerates_sql:
  assumes r1: "find_similar_queries env question 3 s = (Inr similar1, sa)"
    and q1: "query env question store_results True False s = (res1, s1)"
    and r2: "find_similar_queries env question 3 s1 = (Inr similar2, sb)"
    and q2: "query env question store_results True True s1 = (res2, s2)"
  shows "length (filter is_generate (new_events s s1)) = 1
       \<and> length (filter is_generate (new_events s1 s2)) = 1
       \<and> length (filter is_generate (new_events s s2)) = 2
       \<and> (\<forall>sql2 sc.
            vn_generate env question
              (if example_pairs_of similar2 = [] then None
               else Some (example_pairs_of similar2)) sb = (Inr sql2, sc)
            \<longrightarrow> take 2 (new_events s1 s2) =
                  [GenerateCall question
                     (if example_pairs_of similar2 = [] then None
                      else Some (example_pairs_of similar2)),
                   ExecuteCall sql2])"
proof -
  let ?ex1 = "if example_pairs_of similar1 = [] then None else Some (example_pairs_of similar1)"
  let ?ex2 = "if example_pairs_of similar2 = [] then None else Some (example_pairs_of similar2)"
  obtain g1 sg1 where g1: "generate_sql env question s = (g1, sg1)"
    by (cases "generate_sql env question s")
  obtain g2 sg2 where g2: "generate_sql env question s1 = (g2, sg2)"
    by (cases "generate_sql env question s1")
  have tg1: "trace sg1 = trace s @ [GenerateCall question ?ex1]"
    using r1 g1 by (rule generate_sql_trace_ok)
  have tg2: "trace sg2 = trace s1 @ [GenerateCall question ?ex2]"
    using r2 g2 by (rule generate_sql_trace_ok)
  from q1 g1 have "s1 = sg1"
    by (auto simp: query_unfold split: sum.splits prod.splits)
  with tg1 have t1: "trace s1 = trace s @ [GenerateCall question ?ex1]" by simp
  from query_after_generation [OF g2 q2] obtain evs where
    t2: "trace s2 = trace sg2 @ evs" and ng: "filter is_generate evs = []"
    and first: "\<forall>sql sim. g2 = Inr (sql, sim) \<and> \<not> (True \<and> \<not> True) \<longrightarrow> take 1 evs = [ExecuteCall sql]"
    by blast
  have n1: "new_events s s1 = [GenerateCall question ?ex1]"
    using t1 by (rule new_events_append)
  have n2: "new_events s1 s2 = GenerateCall question ?ex2 # evs"
    by (rule new_events_append) (simp add: t2 tg2)
  have n12: "new_events s s2 = GenerateCall question ?ex1 # GenerateCall question ?ex2 # evs"
    by (rule new_events_append) (simp add: t2 tg2 t1)
  have regen: "take 2 (new_events s1 s2) = [GenerateCall question ?ex2, ExecuteCall sql2]"
    if v: "vn_generate env question ?ex2 sb = (Inr sql2, sc)" for sql2 sc
  proof -
    from r2 v g2 have "g2 = Inr (sql2, similar2)"
      by (simp add: generate_sql_unfold)
    with first have "take 1 evs = [ExecuteCall sql2]" by simp
    then show ?thesis
      unfolding n2 by (cases evs) simp_all
  qed
  show ?thesis
    unfolding n1 n12 using regen ng by (simp add: n2)
qed

text \<open>
  Claim C7 on a run where the generator answers differently the second time: the preview shows
  \<^verbatim>\<open>SELECT 1\<close>, the approved call generates again and executes \<^verbatim>\<open>SELECT 2\<close>.
\<close>

theorem approved_call_regenerates_sql_witness:
  "query (demo_env encoder_ok no_faults varying_sql False) (py ''show sales'') False True False
      (start [])
     = (Inr (awaiting_response (py ''show sales'') (py ''SELECT 1'') []),
        \<lparr>world = 4, collection = [], trace = [GenerateCall (py ''show sales'') None]\<rparr>)
   \<and> query (demo_env encoder_ok no_faults varying_sql False) (py ''show sales'') False True True
        \<lparr>world = 4, collection = [], trace = [GenerateCall (py ''show sales'') None]\<rparr>
     = (Inr (final_response (py ''show sales'') (py ''SELECT 2'') [] True True
               \<lparr>o_was_successful = True, o_error_message = None, o_execution_time = 2,
                o_df = Some demo_df, o_result_preview = Some (py ''n 1'')\<rparr>),
        \<lparr>world = 12, collection = [],
         trace = [GenerateCall (py ''show sales'') None, GenerateCall (py ''show sales'') None,
                  ExecuteCall (py ''SELECT 2'')]\<rparr>)
   \<and> length (filter is_generate
        (new_events (start [])
          \<lparr>world = 12 :: nat, collection = [],
           trace = [GenerateCall (py ''show sales'') None, GenerateCall (py ''show sales'') None,
                    ExecuteCall (py ''SELECT 2'')]\<rparr>)) = 2
   \<and> take 2 (new_events
          \<lparr>world = 4 :: nat, collection = [], trace = [GenerateCall (py ''show sales'') None]\<rparr>
          \<lparr>world = 12, collection = [],
           trace = [GenerateCall (py ''show sales'') None, GenerateCall (py ''show sales'') None,
                    ExecuteCall (py ''SELECT 2'')]\<rparr>)
       = [GenerateCall (py ''show sales'') None, ExecuteCall (py ''SELECT 2'')]"
proof -
  let ?E = "demo_env encoder_ok no_faults varying_sql False"
  let ?S1 = "\<lparr>world = 4, collection = [], trace = [GenerateCall (py ''show sales'') None]\<rparr>
      :: nat agent_state"
  let ?S2 = "\<lparr>world = 12, collection = [],
         trace = [GenerateCall (py ''show sales'') None, GenerateCall (py ''show sales'') None,
                  ExecuteCall (py ''SELECT 2'')]\<rparr> :: nat agent_state"
  have r1: "find_similar_queries ?E (py ''show sales'') 3 (start [])
      = (Inr [], \<lparr>world = 3, collection = [], trace = []\<rparr>)"
    by code_simp
  have q1: "query ?E (py ''show sales'') False True False (start [])
      = (Inr (awaiting_response (py ''show sales'') (py ''SELECT 1'') []), ?S1)"
    by code_simp
  have r2: "find_similar_queries ?E (py ''show sales'') 3 ?S1
      = (Inr [], \<lparr>world = 7, collection = [], trace = [GenerateCall (py ''show sales'') None]\<rparr>)"
    by code_simp
  have q2: "query ?E (py ''show sales'') False True True ?S1
      = (Inr (final_response (py ''show sales'') (py ''SELECT 2'') [] True True
               \<lparr>o_was_successful = True, o_error_message = None, o_execution_time = 2,
                o_df = Some demo_df, o_result_preview = Some (py ''n 1'')\<rparr>), ?S2)"
    by code_simp
  have v: "vn_generate ?E (py ''show sales'')
      (if example_pairs_of [] = [] then None else Some (example_pairs_of []))
      \<lparr>world = 7, collection = [], trace = [GenerateCall (py ''show sales'') None]\<rparr>
      = (Inr (py ''SELECT 2''), \<lparr>world = 8, collection = [],
           trace = [GenerateCall (py ''show sales'') None, GenerateCall (py ''show sales'') None]\<rparr>)"
    by code_simp
  note inst = approved_call_regenerates_sql [OF r1 q1 r2 q2]
  from inst have a: "length (filter is_generate (new_events (start []) ?S2)) = 2"
    by blast
  from inst v have b: "take 2 (new_events ?S1 ?S2) =
      [GenerateCall (py ''show sales'')
         (if example_pairs_of [] = [] then None else Some (example_pairs_of [])),
       ExecuteCall (py ''SELECT 2'')]"
    by blast
  from a b q1 q2 show ?thesis by (simp add: example_pairs_of_def)
qed

subsection \<open>C8: a generation failure propagates\<close>

text \<open>
  Claim C8. When \<^verbatim>\<open>generate_sql\<close> raises, \<^verbatim>\<open>query\<close> raises the same exception, returns no
  response, leaves the collection as it was, and calls neither \<^verbatim>\<open>store_query_pair\<close> nor
  \<^verbatim>\<open>execute_query\<close>. \<^verbatim>\<open>generate_sql\<close> raises when the embedding step of
  \<^verbatim>\<open>find_similar_queries\<close> raises, and when the generator raises.
\<close>

theorem generation_failure_propagates:
  "(generate_sql env question s = (Inl e, s1) \<longrightarrow>
      query env question store_results require_approval approved s = (Inl e, s1)
      \<and> collection s1 = collection s
      \<and> filter (\<lambda>ev. is_store ev \<or> is_execute ev) (new_events s s1) = [])
   \<and> (external (model_encode env question) s = (Inl e, s1) \<longrightarrow>
        generate_sql env question s = (Inl e, s1))
   \<and> (find_similar_queries env question 3 s = (Inr similar_queries, s0)
        \<and> vn_generate env question
             (if filter sq_was_successful similar_queries = [] then None
              else Some (map (\<lambda>q. (sq_question q, sq_sql q))
                           (filter sq_was_successful similar_queries))) s0 = (Inl e, s1)
       \<longrightarrow> generate_sql env question s = (Inl e, s1))"
proof (intro conjI impI)
  assume g: "generate_sql env question s = (Inl e, s1)"
  show "query env question store_results require_approval approved s = (Inl e, s1)"
    using g by (simp add: query_unfold)
  show "collection s1 = collection s"
    using g by (rule generate_sql_collection)
  from generate_sql_trace [OF g] obtain evs where
    evs: "trace s1 = trace s @ evs" "\<forall>ev \<in> set evs. is_generate ev"
    by blast
  have "filter (\<lambda>ev. is_store ev \<or> is_execute ev) evs = []"
  proof (rule filter_False, rule ballI)
    fix ev assume "ev \<in> set evs"
    with evs(2) have "is_generate ev" by blast
    then show "\<not> (is_store ev \<or> is_execute ev)" by (cases ev) auto
  qed
  then show "filter (\<lambda>ev. is_store ev \<or> is_execute ev) (new_events s s1) = []"
    using new_events_append [OF evs(1)] by simp
next
  assume "external (model_encode env question) s = (Inl e, s1)"
  then show "generate_sql env question s = (Inl e, s1)"
    by (simp add: generate_sql_unfold find_similar_queries_def seq_def)
next
  assume "find_similar_queries env question 3 s = (Inr similar_queries, s0)
        \<and> vn_generate env question
             (if filter sq_was_successful similar_queries = [] then None
              else Some (map (\<lambda>q. (sq_question q, sq_sql q))
                           (filter sq_was_successful similar_queries))) s0 = (Inl e, s1)"
  then show "generate_sql env question s = (Inl e, s1)"
    by (auto simp: generate_sql_unfold example_pairs_of_def split: if_splits)
qed

text \<open>
  Claim C8 on two runs: the generator is unreachable; the embedding model is not loaded.
\<close>

theorem generation_failure_propagates_witness:
  "query (demo_env encoder_ok no_faults generator_down False) (py ''show sales'') True False False
      (start [demo_doc (py ''late orders'') (py ''SELECT 9'') True])
     = (Inl (Exception (py ''generator unreachable'')),
        \<lparr>world = 4, collection = [demo_doc (py ''late orders'') (py ''SELECT 9'') True],
         trace = [GenerateCall (py ''show sales'') None]\<rparr>)
   \<and> query (demo_env encoder_down no_faults fixed_sql False) (py ''show sales'') True False False
        (start [demo_doc (py ''late orders'') (py ''SELECT 9'') True])
     = (Inl (Exception (py ''model not loaded'')),
        \<lparr>world = 1, collection = [demo_doc (py ''late orders'') (py ''SELECT 9'') True], trace = []\<rparr>)"
proof -
  let ?G = "demo_env encoder_ok no_faults generator_down False"
  let ?D = "demo_env encoder_down no_faults fixed_sql False"
  let ?docs = "[demo_doc (py ''late orders'') (py ''SELECT 9'') True]"
  let ?S3 = "\<lparr>world = 3, collection = ?docs, trace = []\<rparr> :: nat agent_state"
  let ?S4 = "\<lparr>world = 4, collection = ?docs, trace = [GenerateCall (py ''show sales'') None]\<rparr>
      :: nat agent_state"
  let ?S1 = "\<lparr>world = 1, collection = ?docs, trace = []\<rparr> :: nat agent_state"
  have fs: "find_similar_queries ?G (py ''show sales'') 3 (start ?docs) = (Inr [], ?S3)"
    by code_simp
  have vg: "vn_generate ?G (py ''show sales'')
      (if filter sq_was_successful [] = [] then None
       else Some (map (\<lambda>q. (sq_question q, sq_sql q)) (filter sq_was_successful []))) ?S3
      = (Inl (Exception (py ''generator unreachable'')), ?S4)"
    by code_simp
  have enc: "external (model_encode ?D (py ''show sales'')) (start ?docs)
      = (Inl (Exception (py ''model not loaded'')), ?S1)"
    by code_simp
  note g = generation_failure_propagates [where env = ?G and question = "(py ''show sales'')"
      and s = "start ?docs" and ?s0.0 = ?S3 and ?s1.0 = ?S4 and similar_queries = "[]"
      and e = "Exception (py ''generator unreachable'')" and store_results = True
      and require_approval = False and approved = False]
  note d = generation_failure_propagates [where env = ?D and question = "(py ''show sales'')"
      and s = "start ?docs" and ?s1.0 = ?S1
      and e = "Exception (py ''model not loaded'')" and store_results = True
      and require_approval = False and approved = False]
  from g fs vg have "query ?G (py ''show sales'') True False False (start ?docs)
      = (Inl (Exception (py ''generator unreachable'')), ?S4)"
    by blast
  moreover from d enc have "query ?D (py ''show sales'') True False False (start ?docs)
      = (Inl (Exception (py ''model not loaded'')), ?S1)"
    by blast
  ultimately show ?thesis by simp
qed

subsection \<open>C9: the response while awaiting approval\<close>

text \<open>
  Claim C9 says that the response of the awaiting-approval path has a field \<^verbatim>\<open>approved\<close> equal
  to false. The dictionary the code returns has no key \<^verbatim>\<open>approved\<close>.
\<close>

theorem awaiting_response_counterexample:
  "query (demo_env encoder_ok no_faults fixed_sql False) (py ''orders per day'') True True False
      (start [])
     = (Inr [(''question'', PStr (py ''orders per day'')),
             (''sql'', PStr (py ''SELECT 1'')),
             (''requires_approval'', PBool True),
             (''was_successful'', PNone),
             (''execution_time'', PNum 0),
             (''similar_queries'', PSimilar []),
             (''awaiting_approval'', PBool True)],
        \<lparr>world = 4, collection = [], trace = [GenerateCall (py ''orders per day'') None]\<rparr>)
   \<and> map_of [(''question'', PStr (py ''orders per day'')),
             (''sql'', PStr (py ''SELECT 1'')),
             (''requires_approval'', PBool True),
             (''was_successful'', PNone),
             (''execution_time'', PNum 0),
             (''similar_queries'', PSimilar []),
             (''awaiting_approval'', PBool True)] ''approved'' = None"
  by code_simp

text \<open>
  Claim C9, as the code has it. On the awaiting-approval path \<^verbatim>\<open>query\<close> returns exactly the
  items \<^verbatim>\<open>question\<close>, \<^verbatim>\<open>sql\<close>, \<^verbatim>\<open>requires_approval: True\<close>, \<^verbatim>\<open>was_successful: None\<close>,
  \<^verbatim>\<open>execution_time: 0\<close>, \<^verbatim>\<open>similar_queries\<close> and \<^verbatim>\<open>awaiting_approval: True\<close>; there is no item
  \<^verbatim>\<open>approved\<close>.
\<close>

theorem awaiting_approval_response:
  assumes "generate_sql env question s = (Inr (sql, similar_queries), s1)"
  shows "query env question store_results True False s =
           (Inr [(''question'', PStr question),
                 (''sql'', PStr sql),
                 (''requires_approval'', PBool True),
                 (''was_successful'', PNone),
                 (''execution_time'', PNum 0),
                 (''similar_queries'', PSimilar similar_queries),
                 (''awaiting_approval'', PBool True)], s1)
       \<and> map_of (awaiting_response question sql similar_queries) ''approved'' = None
       \<and> map_of (awaiting_response question sql similar_queries) ''awaiting_approval''
           = Some (PBool True)"
  using assms by (simp add: query_unfold awaiting_response_def)

text \<open>
  Claim C9 as amended, on a run.
\<close>

theorem awaiting_approval_response_witness:
  "query (demo_env encoder_ok no_faults fixed_sql False) (py ''show sales'') True True False
      (start [])
     = (Inr [(''question'', PStr (py ''show sales'')),
             (''sql'', PStr (py ''SELECT 1'')),
             (''requires_approval'', PBool True),
             (''was_successful'', PNone),
             (''execution_time'', PNum 0),
             (''similar_queries'', PSimilar []),
             (''awaiting_approval'', PBool True)],
        \<lparr>world = 4, collection = [], trace = [GenerateCall (py ''show sales'') None]\<rparr>)
   \<and> map_of (awaiting_response (py ''show sales'') (py ''SELECT 1'') []) ''awaiting_approval''
        = Some (PBool True)"
proof -
  have gen: "generate_sql (demo_env encoder_ok no_faults fixed_sql False) (py ''show sales'') (start [])
      = (Inr ((py ''SELECT 1''), []),
         \<lparr>world = 4, collection = [], trace = [GenerateCall (py ''show sales'') None]\<rparr>)"
    by code_simp
  from awaiting_approval_response [OF gen, where store_results = True]
  show ?thesis by simp
qed

subsection \<open>C10: questions made of short words\<close>

text \<open>
  Claim C10 measures the words of the question as it is given. The code measures the words
  of the lowercased question, and \<^verbatim>\<open>str.lower()\<close> can lengthen a word: U+0130 becomes the two
  code points U+0069 U+0307. For the question U+0130 U+0130, space, "at", both words have
  length 2, yet the lowered first word has length 4 and is a keyword: the pattern is not
  empty, and here no stored question matches it.
\<close>

theorem short_words_counterexample:
  "map length (py_split [304, 304, 32, 97, 116]) = [2, 2]
   \<and> join (py ''|'') (keywords_of (demo_env encoder_ok no_faults fixed_sql False)
        [304, 304, 32, 97, 116]) = [105, 775, 105, 775]
   \<and> text_search (demo_env encoder_ok no_faults fixed_sql False) [304, 304, 32, 97, 116] 2
        (start [demo_doc (py ''orders in May'') (py ''SELECT 1'') True,
                demo_doc (py ''late Orders'') (py ''SELECT 2'') True])
     = (Inr [],
        \<lparr>world = 1,
         collection = [demo_doc (py ''orders in May'') (py ''SELECT 1'') True,
                       demo_doc (py ''late Orders'') (py ''SELECT 2'') True],
         trace = []\<rparr>)"
  by code_simp

text \<open>
  Claim C10, as the code has it. When every whitespace-separated word of the lowercased
  question has at most 3 characters, no keyword is left and the pattern of the keyword search
  is the empty string. An engine for which the empty pattern matches every subject then
  selects every stored question, and the search (alone, and as the fallback of
  \<^verbatim>\<open>find_similar_queries\<close>) returns the first \<^verbatim>\<open>top_k\<close> stored documents, whatever they are,
  for \<^verbatim>\<open>top_k\<close> at least 1: not the empty sequence, unless the store is empty.
\<close>

theorem short_words_match_everything:
  assumes short: "\<forall>word \<in> set (py_split (str_lower env question)). length word \<le> 3"
    and engine: "regex_compile env [] (py ''i'') = Inr matches"
    and anything: "\<forall>subject. matches subject"
    and pos: "0 < top_k"
  shows "join (py ''|'') (filter (\<lambda>word. length word > 3) (py_split (str_lower env question))) = []
       \<and> (mongo_fault env (world s) = (None, w') \<longrightarrow>
            text_search env question top_k s =
              (Inr (map project (take (nat top_k) (collection s))), s\<lparr>world := w'\<rparr>))
       \<and> (collection s \<noteq> [] \<longrightarrow> map project (take (nat top_k) (collection s)) \<noteq> [])
       \<and> (model_encode env question (world s) = (Inr embedding, w1)
            \<and> vector_aggregate env (collection s) embedding top_k w1 = (rv, w2)
            \<and> ((\<exists>e. rv = Inl e) \<or> rv = Inr [])
            \<and> mongo_fault env w2 = (None, w3) \<longrightarrow>
            find_similar_queries env question top_k s =
              (Inr (map project (take (nat top_k) (collection s))), s\<lparr>world := w3\<rparr>))"
proof (intro conjI impI)
  have kw: "keywords_of env question = []"
    using short by (rule keywords_of_short)
  then show "join (py ''|'') (filter (\<lambda>word. length word > 3) (py_split (str_lower env question))) = []"
    by (simp add: keywords_of_def)
  have ts: "text_search env question top_k t =
              (Inr (map project (take (nat top_k) (collection t))), t\<lparr>world := w\<rparr>)"
    if "mongo_fault env (world t) = (None, w)" for t :: "'a agent_state" and w
    using that engine anything pos
    by (simp add: text_search_unfold kw cursor_limit_pos)
  show "text_search env question top_k s =
              (Inr (map project (take (nat top_k) (collection s))), s\<lparr>world := w'\<rparr>)"
    if "mongo_fault env (world s) = (None, w')"
    using that by (rule ts)
  show "map project (take (nat top_k) (collection s)) \<noteq> []" if "collection s \<noteq> []"
    using that pos by (cases "collection s") (simp_all add: take_Cons')
  show "find_similar_queries env question top_k s =
              (Inr (map project (take (nat top_k) (collection s))), s\<lparr>world := w3\<rparr>)"
    if a: "model_encode env question (world s) = (Inr embedding, w1)
            \<and> vector_aggregate env (collection s) embedding top_k w1 = (rv, w2)
            \<and> ((\<exists>e. rv = Inl e) \<or> rv = Inr [])
            \<and> mongo_fault env w2 = (None, w3)"
  proof -
    from a have enc: "model_encode env question (world s) = (Inr embedding, w1)"
      and vec: "vector_aggregate env (collection s) embedding top_k w1 = (rv, w2)"
      and fb: "(\<exists>e. rv = Inl e) \<or> rv = Inr []"
      and nf: "mongo_fault env (world (s\<lparr>world := w2\<rparr>)) = (None, w3)"
      by simp_all
    have "find_similar_queries env question top_k s
        = text_search env question top_k (s\<lparr>world := w2\<rparr>)"
      using enc vec fb by (rule find_similar_queries_fallback)
    also have "\<dots> = (Inr (map project (take (nat top_k) (collection s))), s\<lparr>world := w3\<rparr>)"
      using ts [OF nf] by simp
    finally show ?thesis .
  qed
qed

text \<open>
  Claim C10 as amended, on a run: lowercased, "How is it" has no word longer than 3
  characters, and the first two of three unrelated stored queries are returned.
\<close>

theorem short_words_match_everything_witness:
  "join (py ''|'') (filter (\<lambda>word. length word > 3)
      (py_split (str_lower (demo_env encoder_ok no_faults fixed_sql False) (py ''How is it'')))) = []
   \<and> text_search (demo_env encoder_ok no_faults fixed_sql False) (py ''How is it'') 2
        (start [demo_doc (py ''orders in May'') (py ''SELECT 1'') True,
                demo_doc (py ''late Orders'') (py ''SELECT 2'') True,
                demo_doc (py ''stock'') (py ''SELECT 3'') False])
     = (Inr [project (demo_doc (py ''orders in May'') (py ''SELECT 1'') True),
             project (demo_doc (py ''late Orders'') (py ''SELECT 2'') True)],
        \<lparr>world = 1,
         collection = [demo_doc (py ''orders in May'') (py ''SELECT 1'') True,
                demo_doc (py ''late Orders'') (py ''SELECT 2'') True,
                demo_doc (py ''stock'') (py ''SELECT 3'') False],
         trace = []\<rparr>)
   \<and> find_similar_queries (demo_env encoder_ok no_faults fixed_sql False) (py ''How is it'') 2
        (start [demo_doc (py ''orders in May'') (py ''SELECT 1'') True,
                demo_doc (py ''late Orders'') (py ''SELECT 2'') True,
                demo_doc (py ''stock'') (py ''SELECT 3'') False])
     = (Inr [project (demo_doc (py ''orders in May'') (py ''SELECT 1'') True),
             project (demo_doc (py ''late Orders'') (py ''SELECT 2'') True)],
        \<lparr>world = 3,
         collection = [demo_doc (py ''orders in May'') (py ''SELECT 1'') True,
                demo_doc (py ''late Orders'') (py ''SELECT 2'') True,
                demo_doc (py ''stock'') (py ''SELECT 3'') False],
         trace = []\<rparr>)"
proof -
  let ?E = "demo_env encoder_ok no_faults fixed_sql False"
  let ?docs = "[demo_doc (py ''orders in May'') (py ''SELECT 1'') True,
                demo_doc (py ''late Orders'') (py ''SELECT 2'') True,
                demo_doc (py ''stock'') (py ''SELECT 3'') False]"
  have words: "py_split (str_lower ?E (py ''How is it'')) = [py ''how'', py ''is'', py ''it'']"
    by code_simp
  have short: "\<forall>word \<in> set (py_split (str_lower ?E (py ''How is it''))). length word \<le> 3"
    unfolding words by (simp add: py_def)
  have engine: "regex_compile ?E [] (py ''i'') = Inr (matches_literal [] (py ''i''))"
    by (simp add: demo_env_def literal_regex_compile_def)
  have anything: "\<forall>subject. matches_literal [] (py ''i'') subject"
    by (simp add: matches_literal_def demo_lower_def py_in_nil)
  have pos: "(0::int) < 2" by simp
  have f0: "mongo_fault ?E (world (start ?docs)) = (None, 1)"
    by (simp add: demo_env_def no_faults_def start_def)
  have enc: "model_encode ?E (py ''How is it'') (world (start ?docs)) = (Inr [1], 1)"
    by (simp add: demo_env_def encoder_ok_def start_def)
  have vec: "vector_aggregate ?E (collection (start ?docs)) [1] 2 1
      = (Inl (Exception (py ''no vector index'')), 2)"
    by (simp add: demo_env_def start_def)
  have f2: "mongo_fault ?E 2 = (None, 3)"
    by (simp add: demo_env_def no_faults_def)
  note inst = short_words_match_everything [OF short engine anything pos,
      where s = "start ?docs" and w' = 1 and embedding = "[1]" and ?w1.0 = 1
        and rv = "Inl (Exception (py ''no vector index''))" and ?w2.0 = 2 and ?w3.0 = 3]
  from inst f0 enc vec f2 show ?thesis
    by (simp add: start_def)
qed

end
